theory Spec2Isabelle
  imports Complex_Main
begin

section \<open>Conventions of the embedding\<close>

text \<open>
  The registration engine computes with IEEE numbers (\<open>double\<close> in the optimizer,
  \<open>float\<close> in the descriptor volumes). The embedding idealises both as \<^typ>\<open>real\<close>:
  rounding, overflow and NaN are outside the model, and every statement below is about
  the control flow and the exact arithmetic of the code. Console output guarded by
  \<open>m_Verbose\<close> changes no state and is left out.

  External libraries are not part of the repository. Where the code calls one (Eigen's
  \<open>LDLT\<close>, ITK's resampling, mean and gradient filters, ITK's interpolators, the
  \<open>std::mt19937\<close> generator) the library's answer is a parameter of the model.
\<close>

section \<open>Gauss-Newton optimizer (GaussNewtonOptimizer.cpp)\<close>

datatype StopCondition =
  MAXIMUM_ITERATIONS | STEP_TOO_SMALL | GRADIENT_TOO_SMALL | CONVERGED | SINGULAR_MATRIX

type_synonym ParametersType = "real list"
type_synonym ResidualVectorType = "real list"
type_synonym JacobianMatrixType = "real list list"

text \<open>
  The \<open>std::function\<close> members of the optimizer. They act on the caller's objects
  (metric and transform), whose state is the type variable \<open>'w\<close>. An empty
  \<open>std::function\<close> is \<open>None\<close>; only the gradient callback is tested for emptiness in
  the functions modelled here. The gradient callback receives the vector it writes to.
\<close>

record 'w callbacks =
  m_CostFunction :: "'w \<Rightarrow> real \<times> 'w"
  m_GradientFunction :: "(ParametersType \<Rightarrow> 'w \<Rightarrow> ParametersType \<times> 'w) option"
  m_GetParameters :: "'w \<Rightarrow> ParametersType"
  m_SetParameters :: "ParametersType \<Rightarrow> 'w \<Rightarrow> 'w"
  m_ResidualFunction :: "'w \<Rightarrow> ResidualVectorType \<times> 'w"
  m_JacobianFunction :: "'w \<Rightarrow> JacobianMatrixType \<times> 'w"

record GaussNewtonOptimizer =
  m_LearningRate :: real
  m_MinimumStepLength :: real
  m_NumberOfIterations :: nat
  m_RelaxationFactor :: real
  m_GradientMagnitudeTolerance :: real
  m_ReturnBestParameters :: bool
  m_NumberOfParameters :: nat
  m_Scales :: ParametersType
  m_MaxParameterUpdate :: ParametersType
  m_DampingFactor :: real
  m_UseLevenbergMarquardt :: bool
  m_UseLineSearch :: bool
  m_LineSearchMaxIterations :: nat
  m_LineSearchShrinkFactor :: real
  m_CurrentValue :: real
  m_BestValue :: real
  m_CurrentIteration :: nat
  m_CurrentStepLength :: real
  m_PreviousValue :: real
  m_PreviousParameters :: ParametersType
  m_BestParameters :: ParametersType
  m_StopCondition :: StopCondition

text \<open>
  What \<open>Eigen::LDLT<MatrixXd>\<close> reports for a matrix: \<open>info() == Success\<close>,
  \<open>isPositive()\<close>, and the solution of a right-hand side, which is \<open>None\<close> when
  \<open>allFinite()\<close> is false for it.
\<close>

record LDLT =
  info_Success :: bool
  isPositive :: bool
  solve :: "real list \<Rightarrow> real list option"

type_synonym ldlt_factorization = "real list list \<Rightarrow> LDLT"

text \<open>\<open>(j < m_Scales.size()) ? m_Scales[j] : 1.0\<close>\<close>

definition scale_at :: "ParametersType \<Rightarrow> nat \<Rightarrow> real" where
  "scale_at scales j = (if j < length scales then scales ! j else 1)"

text \<open>
  Steps 3 and 4 of \<open>AdvanceOneStep\<close>: the scaled Jacobian \<open>J(i, j) = jacobian[i][j] / scale\<close>
  for \<open>i < m\<close>, \<open>j < n\<close> (the source reads \<open>jacobian[i][j]\<close> unchecked), then
  \<open>J\<^sup>T J\<close> and \<open>J\<^sup>T f\<close>.
\<close>

definition scaled_jacobian ::
  "ParametersType \<Rightarrow> JacobianMatrixType \<Rightarrow> nat \<Rightarrow> nat \<Rightarrow> real list list" where
  "scaled_jacobian scales jacobian m n =
     map (\<lambda>i. map (\<lambda>j. jacobian ! i ! j / scale_at scales j) [0..<n]) [0..<m]"

definition JtJ_of :: "real list list \<Rightarrow> nat \<Rightarrow> real list list" where
  "JtJ_of J n = map (\<lambda>a. map (\<lambda>b. (\<Sum>row\<leftarrow>J. row ! a * row ! b)) [0..<n]) [0..<n]"

definition Jtf_of :: "real list list \<Rightarrow> real list \<Rightarrow> nat \<Rightarrow> real list" where
  "Jtf_of J f n = map (\<lambda>a. (\<Sum>i\<leftarrow>[0..<length J]. J ! i ! a * f ! i)) [0..<n]"

text \<open>\<open>A(i, i) += d i\<close> for every \<open>i < n\<close>, on a copy of the matrix.\<close>

definition add_to_diagonal :: "real list list \<Rightarrow> (nat \<Rightarrow> real) \<Rightarrow> real list list" where
  "add_to_diagonal A d = map (\<lambda>i. (A ! i)[i := A ! i ! i + d i]) [0..<length A]"

text \<open>
  \<open>SolveNormalEquations\<close>; \<open>None\<close> is the return value \<open>false\<close>, \<open>Some u\<close> is \<open>true\<close>
  with the solution written to \<open>u\<close>.
\<close>

definition first_matrix :: "GaussNewtonOptimizer \<Rightarrow> real list list \<Rightarrow> real list list" where
  "first_matrix s JtJ =
     (if m_UseLevenbergMarquardt s
      then add_to_diagonal JtJ (\<lambda>i. m_DampingFactor s * (JtJ ! i ! i + 1 / 10 ^ 6))
      else JtJ)"

definition retry_matrix :: "GaussNewtonOptimizer \<Rightarrow> real list list \<Rightarrow> real list list" where
  "retry_matrix s JtJ =
     (let strongDamping = max (m_DampingFactor s * 10) (1 / 10 ^ 3)
      in add_to_diagonal JtJ (\<lambda>i. strongDamping))"

definition SolveNormalEquations ::
  "ldlt_factorization \<Rightarrow> GaussNewtonOptimizer \<Rightarrow> real list list \<Rightarrow> real list
     \<Rightarrow> real list option" where
  "SolveNormalEquations ldlt_of s JtJ Jtf =
     (let ldlt = ldlt_of (first_matrix s JtJ) in
      if \<not> info_Success ldlt then None
      else if \<not> isPositive ldlt then
        (let ldlt2 = ldlt_of (retry_matrix s JtJ) in
         if \<not> info_Success ldlt2 \<or> \<not> isPositive ldlt2 then None
         else solve ldlt2 (map uminus Jtf))
      else solve ldlt (map uminus Jtf))"

text \<open>\<open>ClampUpdate\<close> and \<open>ComputeScaledUpdateMagnitude\<close>.\<close>

definition ClampUpdate :: "GaussNewtonOptimizer \<Rightarrow> ParametersType \<Rightarrow> ParametersType" where
  "ClampUpdate s update =
     map (\<lambda>i. if i < length (m_MaxParameterUpdate s)
               then (let maxUpdate = m_MaxParameterUpdate s ! i in
                     if \<bar>update ! i\<bar> > maxUpdate
                     then (if update ! i > 0 then maxUpdate else - maxUpdate)
                     else update ! i)
               else update ! i) [0..<length update]"

definition ComputeScaledUpdateMagnitude :: "GaussNewtonOptimizer \<Rightarrow> ParametersType \<Rightarrow> real" where
  "ComputeScaledUpdateMagnitude s update =
     sqrt (\<Sum>i\<leftarrow>[0..<length update]. (update ! i / scale_at (m_Scales s) i) * (update ! i / scale_at (m_Scales s) i))"

text \<open>\<open>newParams[i] = currentParams[i] - alpha * direction[i]\<close> for \<open>i < n\<close>.\<close>

definition stepped :: "nat \<Rightarrow> ParametersType \<Rightarrow> real \<Rightarrow> ParametersType \<Rightarrow> ParametersType" where
  "stepped n currentParams alpha direction =
     map (\<lambda>i. currentParams ! i - alpha * direction ! i) [0..<n]"

text \<open>
  The backtracking loop of \<open>LineSearch\<close>,
  \<open>for (iter = 0; iter < m_LineSearchMaxIterations; ++iter)\<close>, with the Armijo test
  \<open>newValue <= initialValue + c * alpha * dirGrad\<close>, \<open>c = 1e-4\<close>. Both exits restore
  \<open>currentParams\<close>.
\<close>

function LineSearch_loop ::
  "'w callbacks \<Rightarrow> GaussNewtonOptimizer \<Rightarrow> ParametersType \<Rightarrow> ParametersType \<Rightarrow> real \<Rightarrow> real
     \<Rightarrow> nat \<Rightarrow> real \<Rightarrow> 'w \<Rightarrow> real \<times> 'w" where
  "LineSearch_loop cb s currentParams direction initialValue dirGrad iter alpha w =
     (if iter < m_LineSearchMaxIterations s then
        (let newParams = stepped (m_NumberOfParameters s) currentParams alpha direction;
             w1 = m_SetParameters cb newParams w;
             (newValue, w2) = m_CostFunction cb w1
         in if newValue \<le> initialValue + (1 / 10 ^ 4) * alpha * dirGrad
            then (alpha, m_SetParameters cb currentParams w2)
            else LineSearch_loop cb s currentParams direction initialValue dirGrad
                   (Suc iter) (alpha * m_LineSearchShrinkFactor s) w2)
      else (alpha, m_SetParameters cb currentParams w))"
  by pat_completeness auto
termination
  by (relation "measure (\<lambda>(cb, s, cp, d, iv, dg, iter, alpha, w). m_LineSearchMaxIterations s - iter)")
     auto

declare LineSearch_loop.simps [simp del]

definition LineSearch ::
  "'w callbacks \<Rightarrow> GaussNewtonOptimizer \<Rightarrow> ParametersType \<Rightarrow> ParametersType \<Rightarrow> real \<Rightarrow> 'w
     \<Rightarrow> real \<times> 'w" where
  "LineSearch cb s currentParams direction initialValue w =
     (let gradient0 = replicate (m_NumberOfParameters s) 0;
          (gradient, w1) = (case m_GradientFunction cb of
                              Some g \<Rightarrow> g gradient0 w
                            | None \<Rightarrow> (gradient0, w));
          dirGrad = (\<Sum>i\<leftarrow>[0..<m_NumberOfParameters s]. gradient ! i * direction ! i)
      in if dirGrad \<ge> 0 then (1 / 10, w1)
         else LineSearch_loop cb s currentParams direction initialValue dirGrad 0 1 w1)"

text \<open>
  \<open>AdvanceOneStep\<close>, steps 9 to 12 and the convergence test that ends the function: the
  tentative update, acceptance or rejection, and the final comparison of
  \<open>relativeImprovement\<close> with \<open>m_GradientMagnitudeTolerance\<close>.
\<close>

definition check_convergence :: "GaussNewtonOptimizer \<Rightarrow> GaussNewtonOptimizer" where
  "check_convergence s =
     (let relativeImprovement =
            \<bar>m_PreviousValue s - m_CurrentValue s\<bar> / (\<bar>m_PreviousValue s\<bar> + 1 / 10 ^ 10)
      in if relativeImprovement < m_GradientMagnitudeTolerance s
            \<and> m_CurrentValue s \<le> m_PreviousValue s
         then s\<lparr>m_StopCondition := CONVERGED\<rparr>
         else s)"

definition accept_step ::
  "GaussNewtonOptimizer \<Rightarrow> ParametersType \<Rightarrow> real \<Rightarrow> real \<Rightarrow> GaussNewtonOptimizer" where
  "accept_step s newParams stepFactor newValue =
     (let s1 = s\<lparr>m_CurrentValue := newValue, m_CurrentStepLength := stepFactor\<rparr>;
          s2 = (if newValue < m_BestValue s1
                then s1\<lparr>m_BestValue := newValue, m_BestParameters := newParams\<rparr>
                else s1)
      in if m_UseLevenbergMarquardt s2
         then s2\<lparr>m_DampingFactor := max (m_DampingFactor s2 * (1 / 2)) (1 / 10 ^ 10)\<rparr>
         else s2)"

definition reject_step :: "GaussNewtonOptimizer \<Rightarrow> GaussNewtonOptimizer" where
  "reject_step s =
     (let s1 = s\<lparr>m_CurrentValue := m_PreviousValue s,
                 m_CurrentStepLength := m_CurrentStepLength s * m_RelaxationFactor s\<rparr>;
          s2 = (if m_UseLevenbergMarquardt s1
                then s1\<lparr>m_DampingFactor := min (m_DampingFactor s1 * 2) (10 ^ 6)\<rparr>
                else s1)
      in if m_CurrentStepLength s2 < m_MinimumStepLength s2
         then s2\<lparr>m_StopCondition := STEP_TOO_SMALL\<rparr>
         else s2)"

definition apply_update ::
  "'w callbacks \<Rightarrow> GaussNewtonOptimizer \<Rightarrow> ParametersType \<Rightarrow> ParametersType \<Rightarrow> 'w
     \<Rightarrow> GaussNewtonOptimizer \<times> 'w" where
  "apply_update cb s currentParams update w =
     (let (stepFactor, w1) =
            (if m_UseLineSearch s
             then LineSearch cb s currentParams update (m_CurrentValue s) w
             else (1, w));
          newParams = stepped (m_NumberOfParameters s) currentParams stepFactor update;
          w2 = m_SetParameters cb newParams w1;
          (newValue, w3) = m_CostFunction cb w2
      in if newValue < m_CurrentValue s
         then (check_convergence (accept_step s newParams stepFactor newValue), w3)
         else (check_convergence (reject_step s), m_SetParameters cb currentParams w3))"

text \<open>
  \<open>AdvanceOneStep\<close> from its first line: residuals, Jacobian, normal equations, unscaling,
  clamping and the test of the update magnitude, each with its early \<open>return\<close>.
\<close>

definition AdvanceOneStep ::
  "ldlt_factorization \<Rightarrow> 'w callbacks \<Rightarrow> GaussNewtonOptimizer \<Rightarrow> 'w
     \<Rightarrow> GaussNewtonOptimizer \<times> 'w" where
  "AdvanceOneStep ldlt_of cb s0 w0 =
     (let currentParams = m_GetParameters cb w0;
          s = s0\<lparr>m_PreviousParameters := currentParams, m_PreviousValue := m_CurrentValue s0\<rparr>;
          (residuals, w1) = m_ResidualFunction cb w0
      in if residuals = [] then (s\<lparr>m_StopCondition := SINGULAR_MATRIX\<rparr>, w1)
         else
          (let (jacobian, w2) = m_JacobianFunction cb w1
           in if jacobian = [] \<or> length (jacobian ! 0) \<noteq> m_NumberOfParameters s
              then (s\<lparr>m_StopCondition := SINGULAR_MATRIX\<rparr>, w2)
              else
               (let m = length residuals;
                    n = m_NumberOfParameters s;
                    J = scaled_jacobian (m_Scales s) jacobian m n;
                    JtJ = JtJ_of J n;
                    Jtf = Jtf_of J residuals n
                in case SolveNormalEquations ldlt_of s JtJ Jtf of
                     None \<Rightarrow> (s\<lparr>m_StopCondition := SINGULAR_MATRIX\<rparr>, w2)
                   | Some u \<Rightarrow>
                      (let update = ClampUpdate s
                                      (map (\<lambda>i. u ! i / scale_at (m_Scales s) i) [0..<n]);
                           updateMagnitude = ComputeScaledUpdateMagnitude s update
                       in if updateMagnitude < m_MinimumStepLength s
                          then (s\<lparr>m_StopCondition := STEP_TOO_SMALL\<rparr>, w2)
                          else apply_update cb s currentParams update w2))))"

section \<open>MIND metric (MINDMetric.h, MINDMetric.cpp)\<close>

subsection \<open>Volumes, interpolators and the libraries behind them\<close>

type_synonym Index = "nat \<times> nat \<times> nat"
type_synonym Point = "real \<times> real \<times> real"
type_synonym Offset = "int \<times> int \<times> int"

text \<open>
  An \<open>itk::Image<float, 3>\<close>: the size of its largest possible region, its spacing, its
  index-to-physical map (origin, spacing and direction together) and its pixel buffer in
  raster order (\<open>x\<close> fastest), the order in which \<open>ImageRegionIterator\<close> walks it.
\<close>

record Image =
  GetSize :: "nat \<times> nat \<times> nat"
  GetSpacing :: "real \<times> real \<times> real"
  TransformIndexToPhysicalPoint :: "Index \<Rightarrow> Point"
  GetBuffer :: "real list"

text \<open>\<open>image->GetPixel(index)\<close>: an unchecked read of the buffer.\<close>

definition GetPixel :: "Image \<Rightarrow> Index \<Rightarrow> real" where
  "GetPixel img index =
     (case (GetSize img, index) of
        ((sx, sy, sz), (x, y, z)) \<Rightarrow> GetBuffer img ! (x + sx * (y + sy * z)))"

text \<open>An \<open>itk::LinearInterpolateImageFunction\<close> bound to an image.\<close>

record Interpolator =
  IsInsideBuffer :: "Point \<Rightarrow> bool"
  Evaluate :: "Point \<Rightarrow> real"

text \<open>
  The ITK filters the metric calls: \<open>ResampleImageFilter\<close> with a
  \<open>TranslationTransform\<close>, a linear interpolator, default pixel value \<open>0\<close> and the
  geometry of its input; \<open>MeanImageFilter\<close> with a radius; \<open>GradientImageFilter\<close>, whose
  output pixels are vectors; and the construction of an interpolator on an image.
\<close>

record itk =
  ResampleImageFilter :: "Point \<Rightarrow> Image \<Rightarrow> Image"
  MeanImageFilter :: "nat \<Rightarrow> Image \<Rightarrow> Image"
  GradientImageFilter :: "Image \<Rightarrow> Point list"
  LinearInterpolateImageFunction :: "Image \<Rightarrow> Interpolator"

text \<open>
  \<open>std::mt19937\<close> with state type \<open>'g\<close>: the default-constructed generator,
  \<open>seed(value)\<close>, and one draw of \<open>std::uniform_int_distribution<unsigned int>(a, b)\<close>.
\<close>

record 'g random_library =
  mt19937_default :: 'g
  mt19937_seed :: "nat \<Rightarrow> 'g"
  uniform_int_distribution :: "nat \<Rightarrow> nat \<Rightarrow> 'g \<Rightarrow> nat \<times> 'g"

text \<open>The pixel-wise filters \<open>SubtractImageFilter\<close>, \<open>SquareImageFilter\<close>, \<open>AddImageFilter\<close>.\<close>

definition SubtractImageFilter :: "Image \<Rightarrow> Image \<Rightarrow> Image" where
  "SubtractImageFilter a b = a\<lparr>GetBuffer := map2 (\<lambda>u v. u - v) (GetBuffer a) (GetBuffer b)\<rparr>"

definition SquareImageFilter :: "Image \<Rightarrow> Image" where
  "SquareImageFilter a = a\<lparr>GetBuffer := map (\<lambda>u. u * u) (GetBuffer a)\<rparr>"

definition AddImageFilter :: "Image \<Rightarrow> Image \<Rightarrow> Image" where
  "AddImageFilter a b = a\<lparr>GetBuffer := map2 (\<lambda>u v. u + v) (GetBuffer a) (GetBuffer b)\<rparr>"

subsection \<open>The metric object\<close>

datatype NeighborhoodType = SixConnected | TwentySixConnected

datatype error = runtime_error string | undefined_behaviour

record SamplePoint =
  fixedPoint :: Point
  fixedIndex :: Index
  fixedMINDValues :: "real list"

text \<open>
  The members of \<open>MINDMetric\<close>. The volumes set by the caller are referred to by address
  (\<open>None\<close> is the null pointer) and live in the caller's memory, a map from addresses to
  images that is passed to the functions that dereference them; the feature volumes the
  metric creates are held by value. Three members share their name with a member of the
  optimizer and carry the suffix \<open>_MIND\<close>. The members \<open>m_Interpolator\<close>,
  \<open>m_MovingImageGradient\<close>, \<open>m_GradientInterpolators\<close>, \<open>m_NumberOfThreads\<close>,
  \<open>m_FiniteDifferenceStep\<close> and \<open>m_Verbose\<close> are read by none of the functions below and
  are left out.
\<close>

record 'g MINDMetric =
  m_FixedImage :: "nat option"
  m_MovingImage :: "nat option"
  m_Transform :: "(Point \<Rightarrow> Point) option"
  m_FixedMINDFeatures :: "Image list"
  m_MovingMINDFeatures :: "Image list"
  m_FixedImageMask :: "(Point \<Rightarrow> bool) option"
  m_JacobianFunction_MIND :: "(Point \<Rightarrow> Point list) option"
  m_NumberOfParameters_MIND :: nat
  m_MovingMINDInterpolators :: "Interpolator list"
  m_MovingMINDFeatureGradients :: "Image list list"
  m_MovingMINDFeatureGradientInterpolators :: "Interpolator list list"
  m_CachedFixedImage :: "nat option"
  m_CachedMovingImage :: "nat option"
  m_FixedMINDFeaturesValid :: bool
  m_MovingMINDFeaturesValid :: bool
  m_MINDRadius :: nat
  m_MINDSigma :: real
  m_NeighborhoodType :: NeighborhoodType
  m_NeighborhoodOffsets :: "Offset list"
  m_SamplingPercentage :: real
  m_RandomSeed :: nat
  m_UseFixedSeed :: bool
  m_UseStratifiedSampling :: bool
  m_NumberOfValidSamples :: nat
  m_SamplePoints :: "SamplePoint list"
  m_CurrentValue_MIND :: real
  m_RandomGenerator :: 'g

text \<open>\<open>InitializeNeighborhoodOffsets\<close>: the six face neighbours, or the 26 offsets in the
  order of the three nested loops (\<open>dz\<close> outermost, \<open>dx\<close> innermost).\<close>

definition offsets_26 :: "Offset list" where
  "offsets_26 =
     concat (map (\<lambda>dz. concat (map (\<lambda>dy. concat (map (\<lambda>dx.
       if dx \<noteq> 0 \<or> dy \<noteq> 0 \<or> dz \<noteq> 0 then [(dx, dy, dz)] else [])
       [-1, 0, 1])) [-1, 0, 1])) [-1, 0, 1])"

definition InitializeNeighborhoodOffsets :: "'g MINDMetric \<Rightarrow> 'g MINDMetric" where
  "InitializeNeighborhoodOffsets s =
     s\<lparr>m_NeighborhoodOffsets :=
         (if m_NeighborhoodType s = SixConnected
          then [(1, 0, 0), (-1, 0, 0), (0, 1, 0), (0, -1, 0), (0, 0, 1), (0, 0, -1)]
          else offsets_26)\<rparr>"

text \<open>The constructor and the setters.\<close>

definition MINDMetric_ctor :: "'g random_library \<Rightarrow> 'g MINDMetric" where
  "MINDMetric_ctor rng =
     InitializeNeighborhoodOffsets
       \<lparr>m_FixedImage = None, m_MovingImage = None, m_Transform = None,
        m_FixedMINDFeatures = [], m_MovingMINDFeatures = [], m_FixedImageMask = None,
        m_JacobianFunction_MIND = None, m_NumberOfParameters_MIND = 6,
        m_MovingMINDInterpolators = [], m_MovingMINDFeatureGradients = [],
        m_MovingMINDFeatureGradientInterpolators = [],
        m_CachedFixedImage = None, m_CachedMovingImage = None,
        m_FixedMINDFeaturesValid = False, m_MovingMINDFeaturesValid = False,
        m_MINDRadius = 1, m_MINDSigma = 8 / 10, m_NeighborhoodType = SixConnected,
        m_NeighborhoodOffsets = [], m_SamplingPercentage = 15 / 100,
        m_RandomSeed = 121212, m_UseFixedSeed = True, m_UseStratifiedSampling = True,
        m_NumberOfValidSamples = 0, m_SamplePoints = [], m_CurrentValue_MIND = 0,
        m_RandomGenerator = mt19937_default rng\<rparr>"

definition SetFixedImage :: "nat option \<Rightarrow> 'g MINDMetric \<Rightarrow> 'g MINDMetric" where
  "SetFixedImage fixedImage s =
     s\<lparr>m_FixedImage := fixedImage, m_FixedMINDFeaturesValid := False\<rparr>"

definition SetMovingImage :: "nat option \<Rightarrow> 'g MINDMetric \<Rightarrow> 'g MINDMetric" where
  "SetMovingImage movingImage s =
     s\<lparr>m_MovingImage := movingImage, m_MovingMINDFeaturesValid := False\<rparr>"

definition SetTransform :: "(Point \<Rightarrow> Point) option \<Rightarrow> 'g MINDMetric \<Rightarrow> 'g MINDMetric" where
  "SetTransform transform s = s\<lparr>m_Transform := transform\<rparr>"

definition SetMINDRadius :: "nat \<Rightarrow> 'g MINDMetric \<Rightarrow> 'g MINDMetric" where
  "SetMINDRadius radius s = s\<lparr>m_MINDRadius := radius\<rparr>"

definition SetMINDSigma :: "real \<Rightarrow> 'g MINDMetric \<Rightarrow> 'g MINDMetric" where
  "SetMINDSigma sigma s = s\<lparr>m_MINDSigma := sigma\<rparr>"

definition SetNeighborhoodType :: "NeighborhoodType \<Rightarrow> 'g MINDMetric \<Rightarrow> 'g MINDMetric" where
  "SetNeighborhoodType type s = s\<lparr>m_NeighborhoodType := type\<rparr>"

definition SetSamplingPercentage :: "real \<Rightarrow> 'g MINDMetric \<Rightarrow> 'g MINDMetric" where
  "SetSamplingPercentage percent s = s\<lparr>m_SamplingPercentage := percent\<rparr>"

definition SetRandomSeed :: "nat \<Rightarrow> 'g MINDMetric \<Rightarrow> 'g MINDMetric" where
  "SetRandomSeed seed s = s\<lparr>m_RandomSeed := seed, m_UseFixedSeed := True\<rparr>"

definition SetFixedImageMask :: "(Point \<Rightarrow> bool) option \<Rightarrow> 'g MINDMetric \<Rightarrow> 'g MINDMetric" where
  "SetFixedImageMask msk s = s\<lparr>m_FixedImageMask := msk\<rparr>"

definition SetUseStratifiedSampling :: "bool \<Rightarrow> 'g MINDMetric \<Rightarrow> 'g MINDMetric" where
  "SetUseStratifiedSampling use s = s\<lparr>m_UseStratifiedSampling := use\<rparr>"

definition ResetCache :: "'g MINDMetric \<Rightarrow> 'g MINDMetric" where
  "ResetCache s =
     s\<lparr>m_CachedFixedImage := None, m_CachedMovingImage := None,
       m_FixedMINDFeaturesValid := False, m_MovingMINDFeaturesValid := False\<rparr>"

subsection \<open>Patch distances and MIND features\<close>

text \<open>\<open>ShiftImage\<close>: a resampling through the translation \<open>- offset * spacing\<close>.\<close>

definition ShiftImage :: "itk \<Rightarrow> Image \<Rightarrow> Offset \<Rightarrow> Image" where
  "ShiftImage lib img offset =
     (case (GetSpacing img, offset) of
        ((sx, sy, sz), (offsetX, offsetY, offsetZ)) \<Rightarrow>
          ResampleImageFilter lib
            (- real_of_int offsetX * sx, - real_of_int offsetY * sy, - real_of_int offsetZ * sz)
            img)"

definition ApplyMeanFilter :: "itk \<Rightarrow> 'g MINDMetric \<Rightarrow> Image \<Rightarrow> Image" where
  "ApplyMeanFilter lib s img = MeanImageFilter lib (m_MINDRadius s) img"

definition ComputePatchDistances :: "itk \<Rightarrow> 'g MINDMetric \<Rightarrow> Image \<Rightarrow> Image list" where
  "ComputePatchDistances lib s img =
     map (\<lambda>offset.
            ApplyMeanFilter lib s
              (SquareImageFilter (SubtractImageFilter img (ShiftImage lib img offset))))
         (m_NeighborhoodOffsets s)"

text \<open>
  \<open>ComputeMINDFeatures\<close>, step by step as in the source: the sum of the \<open>D_P\<close> images
  through a chain of \<open>AddImageFilter\<close>s that starts at \<open>dpImages[0]\<close>; the variance image
  \<open>sum / numDirections + 1e-10\<close>; the features \<open>exp(- dp / variance)\<close>; the image of the
  per-voxel maximum over the channels (from \<open>0\<close>) plus \<open>1e-10\<close>; the division by it. Every
  new image takes the region, spacing, origin and direction of the input.
\<close>

definition sum_images :: "Image list \<Rightarrow> Image" where
  "sum_images dpImages = foldl AddImageFilter (dpImages ! 0) (tl dpImages)"

definition variance_buffer :: "nat \<Rightarrow> nat \<Rightarrow> Image \<Rightarrow> real list" where
  "variance_buffer N numDirections sumImage =
     map (\<lambda>p. GetBuffer sumImage ! p / real numDirections + 1 / 10 ^ 10) [0..<N]"

definition feature_buffer :: "nat \<Rightarrow> Image \<Rightarrow> real list \<Rightarrow> real list" where
  "feature_buffer N dpImage variance =
     map (\<lambda>p. exp (- (GetBuffer dpImage ! p) / (variance ! p))) [0..<N]"

definition max_buffer :: "nat \<Rightarrow> real list list \<Rightarrow> real list" where
  "max_buffer N features =
     map (\<lambda>p. foldl (\<lambda>maxVal feature. max maxVal (feature ! p)) 0 features + 1 / 10 ^ 10)
         [0..<N]"

definition normalized_buffer :: "nat \<Rightarrow> real list \<Rightarrow> real list \<Rightarrow> real list" where
  "normalized_buffer N feature maxImage = map (\<lambda>p. feature ! p / maxImage ! p) [0..<N]"

definition ComputeMINDFeatures :: "itk \<Rightarrow> 'g MINDMetric \<Rightarrow> Image \<Rightarrow> Image list" where
  "ComputeMINDFeatures lib s img =
     (let N = length (GetBuffer img);
          dpImages = ComputePatchDistances lib s img;
          sumImage = sum_images dpImages;
          variance = variance_buffer N (length (m_NeighborhoodOffsets s)) sumImage;
          features = map (\<lambda>dpImage. feature_buffer N dpImage variance) dpImages;
          maxImage = max_buffer N features
      in map (\<lambda>feature. img\<lparr>GetBuffer := normalized_buffer N feature maxImage\<rparr>) features)"

text \<open>\<open>ComputeMINDFeatureGradients\<close>: per moving channel the three components of the
  gradient filter's output, as images of the channel's geometry, and their interpolators.\<close>

definition component :: "Point \<Rightarrow> nat \<Rightarrow> real" where
  "component v d = (case v of (a, b, c) \<Rightarrow> if d = 0 then a else if d = 1 then b else c)"

definition ComputeMINDFeatureGradients :: "itk \<Rightarrow> 'g MINDMetric \<Rightarrow> 'g MINDMetric" where
  "ComputeMINDFeatureGradients lib s =
     (let gradients =
            map (\<lambda>feature.
                   map (\<lambda>d. feature\<lparr>GetBuffer :=
                                 map (\<lambda>gradient. component gradient d)
                                     (GradientImageFilter lib feature)\<rparr>) [0..<3])
                (m_MovingMINDFeatures s)
      in s\<lparr>m_MovingMINDFeatureGradients := gradients,
            m_MovingMINDFeatureGradientInterpolators :=
              map (map (LinearInterpolateImageFunction lib)) gradients\<rparr>)"

subsection \<open>Sampling the fixed image\<close>

text \<open>
  A counted loop \<open>for (x = lo; x < hi; x += step) body\<close> whose body may jump to the label
  behind all loops (\<open>goto sampling_complete\<close>): the body returns the new accumulator and
  whether it jumped. The source's \<open>step\<close> is \<open>std::max(1u, ...)\<close> and so never zero; the
  test \<open>0 < step\<close> only makes the recursion well-founded. \<open>lattice_axis\<close> lists the values
  the loop variable takes.
\<close>

function for_loop ::
  "nat \<Rightarrow> nat \<Rightarrow> nat \<Rightarrow> (nat \<Rightarrow> 'a \<Rightarrow> 'a \<times> bool) \<Rightarrow> 'a \<Rightarrow> 'a \<times> bool" where
  "for_loop x hi step body acc =
     (if x < hi \<and> 0 < step
      then (case body x acc of
              (acc', jumped) \<Rightarrow>
                if jumped then (acc', True) else for_loop (x + step) hi step body acc')
      else (acc, False))"
  by pat_completeness auto
termination
  by (relation "measure (\<lambda>(x, hi, step, body, acc). hi - x)") auto

declare for_loop.simps [simp del]



text \<open>The mask test and the construction of a sample at an index.\<close>

definition inside_mask :: "'g MINDMetric \<Rightarrow> Point \<Rightarrow> bool" where
  "inside_mask s point =
     (case m_FixedImageMask s of None \<Rightarrow> True | Some IsInsideInObjectSpace \<Rightarrow> IsInsideInObjectSpace point)"

definition make_sample :: "'g MINDMetric \<Rightarrow> Image \<Rightarrow> Index \<Rightarrow> SamplePoint" where
  "make_sample s fixedImage index =
     \<lparr>fixedPoint = TransformIndexToPhysicalPoint fixedImage index,
      fixedIndex = index,
      fixedMINDValues = map (\<lambda>feature. GetPixel feature index) (m_FixedMINDFeatures s)\<rparr>"

text \<open>The body of the innermost loop of \<open>SampleFixedImageStratified\<close>.\<close>

definition stratified_candidate ::
  "'g MINDMetric \<Rightarrow> Image \<Rightarrow> nat \<Rightarrow> nat \<Rightarrow> nat \<Rightarrow> nat \<Rightarrow> SamplePoint list
     \<Rightarrow> SamplePoint list \<times> bool" where
  "stratified_candidate s fixedImage targetSamples z y x samples =
     (if length samples \<ge> targetSamples then (samples, True)
      else if \<not> inside_mask s (TransformIndexToPhysicalPoint fixedImage (x, y, z))
           then (samples, False)
           else (samples @ [make_sample s fixedImage (x, y, z)], False))"

text \<open>
  \<open>targetSamples = static_cast<unsigned long>(totalVoxels * m_SamplingPercentage)\<close> and
  \<open>step = std::max(1u, static_cast<unsigned int>(std::cbrt(totalVoxels / targetSamples)))\<close>:
  both casts truncate.
\<close>

definition totalVoxels_of :: "Image \<Rightarrow> nat" where
  "totalVoxels_of fixedImage = (case GetSize fixedImage of (sx, sy, sz) \<Rightarrow> sx * sy * sz)"

definition targetSamples_of :: "'g MINDMetric \<Rightarrow> Image \<Rightarrow> nat" where
  "targetSamples_of s fixedImage =
     nat \<lfloor>real (totalVoxels_of fixedImage) * m_SamplingPercentage s\<rfloor>"

definition step_of :: "'g MINDMetric \<Rightarrow> Image \<Rightarrow> nat" where
  "step_of s fixedImage =
     max 1 (nat \<lfloor>root 3 (real (totalVoxels_of fixedImage) / real (targetSamples_of s fixedImage))\<rfloor>)"

text \<open>
  \<open>SampleFixedImageStratified\<close>. The loop bounds \<open>size[i] - padding\<close> are computed in unsigned
  arithmetic; when an extent is smaller than the padding the bound wraps around and the
  loops leave the volume, which the model reports as \<open>undefined_behaviour\<close>. A null
  \<open>m_FixedImage\<close> is dereferenced at once.
\<close>

definition SampleFixedImageStratified ::
  "(nat \<Rightarrow> Image) \<Rightarrow> 'g MINDMetric \<Rightarrow> error + 'g MINDMetric" where
  "SampleFixedImageStratified memory s =
     (case m_FixedImage s of
        None \<Rightarrow> Inl undefined_behaviour
      | Some address \<Rightarrow>
         (let fixedImage = memory address;
              targetSamples = targetSamples_of s fixedImage;
              step = step_of s fixedImage;
              padding = m_MINDRadius s + 1
          in case GetSize fixedImage of
               (sx, sy, sz) \<Rightarrow>
                 if sx < padding \<or> sy < padding \<or> sz < padding then Inl undefined_behaviour
                 else Inr (s\<lparr>m_SamplePoints :=
                   fst (for_loop padding (sz - padding) step
                         (\<lambda>z. for_loop padding (sy - padding) step
                           (\<lambda>y. for_loop padding (sx - padding) step
                             (stratified_candidate s fixedImage targetSamples z y)))
                         [])\<rparr>)))"

text \<open>
  \<open>SampleFixedImageRandom\<close>:
  \<open>while (m_SamplePoints.size() < targetSamples && attempts < maxAttempts)\<close>, three draws
  per attempt. The distributions \<open>(padding, size[i] - padding - 1)\<close> need
  \<open>padding \<le> size[i] - padding - 1\<close>.
\<close>

function random_loop ::
  "'g random_library \<Rightarrow> 'g MINDMetric \<Rightarrow> Image \<Rightarrow> nat \<Rightarrow> nat \<Rightarrow> nat \<Rightarrow> nat \<Rightarrow> 'g
     \<Rightarrow> SamplePoint list \<Rightarrow> SamplePoint list \<times> 'g" where
  "random_loop rng s fixedImage targetSamples maxAttempts padding attempts generator samples =
     (if length samples < targetSamples \<and> attempts < maxAttempts then
        (case GetSize fixedImage of
           (sx, sy, sz) \<Rightarrow>
             (case uniform_int_distribution rng padding (sx - padding - 1) generator of
                (x, g1) \<Rightarrow>
             (case uniform_int_distribution rng padding (sy - padding - 1) g1 of
                (y, g2) \<Rightarrow>
             (case uniform_int_distribution rng padding (sz - padding - 1) g2 of
                (z, g3) \<Rightarrow>
                  if \<not> inside_mask s (TransformIndexToPhysicalPoint fixedImage (x, y, z))
                  then random_loop rng s fixedImage targetSamples maxAttempts padding
                         (Suc attempts) g3 samples
                  else random_loop rng s fixedImage targetSamples maxAttempts padding
                         (Suc attempts) g3 (samples @ [make_sample s fixedImage (x, y, z)])))))
      else (samples, generator))"
  by pat_completeness auto
termination
  by (relation "measure (\<lambda>(rng, s, fixedImage, targetSamples, maxAttempts, padding, attempts,
                           generator, samples). maxAttempts - attempts)") auto

declare random_loop.simps [simp del]

definition SampleFixedImageRandom ::
  "'g random_library \<Rightarrow> (nat \<Rightarrow> Image) \<Rightarrow> 'g MINDMetric \<Rightarrow> error + 'g MINDMetric" where
  "SampleFixedImageRandom rng memory s =
     (case m_FixedImage s of
        None \<Rightarrow> Inl undefined_behaviour
      | Some address \<Rightarrow>
         (let fixedImage = memory address;
              targetSamples = targetSamples_of s fixedImage;
              padding = m_MINDRadius s + 1;
              maxAttempts = targetSamples * 3
          in case GetSize fixedImage of
               (sx, sy, sz) \<Rightarrow>
                 if sx < 2 * padding + 1 \<or> sy < 2 * padding + 1 \<or> sz < 2 * padding + 1
                 then Inl undefined_behaviour
                 else (case random_loop rng s fixedImage targetSamples maxAttempts padding 0
                              (m_RandomGenerator s) [] of
                         (samples, generator) \<Rightarrow>
                           Inr (s\<lparr>m_SamplePoints := samples,
                                  m_RandomGenerator := generator\<rparr>))))"

definition SampleFixedImage ::
  "'g random_library \<Rightarrow> (nat \<Rightarrow> Image) \<Rightarrow> 'g MINDMetric \<Rightarrow> error + 'g MINDMetric" where
  "SampleFixedImage rng memory s =
     (if m_UseStratifiedSampling s then SampleFixedImageStratified memory s
      else SampleFixedImageRandom rng memory s)"

subsection \<open>Initialization and the caches\<close>

text \<open>
  \<open>Initialize\<close>. \<open>entropy\<close> is the value \<open>std::random_device\<close> returns in the branch taken
  without a fixed seed. The two tests of the caches compare the addresses of the volumes.
\<close>

definition fixed_features_recomputed :: "'g MINDMetric \<Rightarrow> bool" where
  "fixed_features_recomputed s =
     (m_CachedFixedImage s \<noteq> m_FixedImage s \<or> \<not> m_FixedMINDFeaturesValid s)"

definition moving_features_recomputed :: "'g MINDMetric \<Rightarrow> bool" where
  "moving_features_recomputed s =
     (m_CachedMovingImage s \<noteq> m_MovingImage s \<or> \<not> m_MovingMINDFeaturesValid s)"

definition refresh_fixed :: "itk \<Rightarrow> (nat \<Rightarrow> Image) \<Rightarrow> nat \<Rightarrow> 'g MINDMetric \<Rightarrow> 'g MINDMetric" where
  "refresh_fixed lib memory fixedAddress s =
     (if fixed_features_recomputed s
      then s\<lparr>m_FixedMINDFeatures := ComputeMINDFeatures lib s (memory fixedAddress),
             m_CachedFixedImage := m_FixedImage s,
             m_FixedMINDFeaturesValid := True\<rparr>
      else s)"

definition refresh_moving :: "itk \<Rightarrow> (nat \<Rightarrow> Image) \<Rightarrow> nat \<Rightarrow> 'g MINDMetric \<Rightarrow> 'g MINDMetric" where
  "refresh_moving lib memory movingAddress s =
     (if moving_features_recomputed s
      then (let s1 = s\<lparr>m_MovingMINDFeatures := ComputeMINDFeatures lib s (memory movingAddress)\<rparr>;
                s2 = ComputeMINDFeatureGradients lib s1
            in s2\<lparr>m_MovingMINDInterpolators :=
                     map (LinearInterpolateImageFunction lib) (m_MovingMINDFeatures s2),
                   m_CachedMovingImage := m_MovingImage s2,
                   m_MovingMINDFeaturesValid := True\<rparr>)
      else s)"

definition seed_generator :: "'g random_library \<Rightarrow> nat \<Rightarrow> 'g MINDMetric \<Rightarrow> 'g MINDMetric" where
  "seed_generator rng entropy s =
     (if m_UseFixedSeed s
      then s\<lparr>m_RandomGenerator := mt19937_seed rng (m_RandomSeed s)\<rparr>
      else s\<lparr>m_RandomGenerator := mt19937_seed rng entropy\<rparr>)"

definition Initialize ::
  "itk \<Rightarrow> 'g random_library \<Rightarrow> (nat \<Rightarrow> Image) \<Rightarrow> nat \<Rightarrow> 'g MINDMetric
     \<Rightarrow> error + 'g MINDMetric" where
  "Initialize lib rng memory entropy s =
     (case (m_FixedImage s, m_MovingImage s) of
        (Some fixedAddress, Some movingAddress) \<Rightarrow>
          (if m_Transform s = None
           then Inl (runtime_error ''[MIND] Transform must be set before initialization'')
           else
            (let s1 = InitializeNeighborhoodOffsets s;
                 s2 = refresh_fixed lib memory fixedAddress s1;
                 s3 = refresh_moving lib memory movingAddress s2
             in case SampleFixedImage rng memory s3 of
                  Inl e \<Rightarrow> Inl e
                | Inr s4 \<Rightarrow> Inr (seed_generator rng entropy s4)))
      | _ \<Rightarrow> Inl (runtime_error
                 ''[MIND] Fixed and moving images must be set before initialization''))"

text \<open>\<open>ReinitializeSampling\<close> recomputes the moving features and gradients and samples again.\<close>

definition ReinitializeSampling ::
  "itk \<Rightarrow> 'g random_library \<Rightarrow> (nat \<Rightarrow> Image) \<Rightarrow> 'g MINDMetric \<Rightarrow> error + 'g MINDMetric" where
  "ReinitializeSampling lib rng memory s =
     (case m_MovingImage s of
        None \<Rightarrow> Inl undefined_behaviour
      | Some movingAddress \<Rightarrow>
          SampleFixedImage rng memory
            (ComputeMINDFeatureGradients lib
               (s\<lparr>m_MovingMINDFeatures := ComputeMINDFeatures lib s (memory movingAddress)\<rparr>)))"

subsection \<open>Metric value, residuals and Jacobian\<close>

text \<open>
  \<open>m_Transform->TransformPoint\<close>. The functions below call it once per sample, after
  \<open>Initialize\<close> has refused a null transform; on a null transform the model's choice of a
  point is arbitrary.
\<close>

definition TransformPoint :: "'g MINDMetric \<Rightarrow> Point \<Rightarrow> Point" where
  "TransformPoint s point = (case m_Transform s of Some T \<Rightarrow> T point | None \<Rightarrow> point)"

text \<open>
  The loop over the channels in \<open>ComputeMINDSSD\<close>: the squared differences are summed
  until a channel's interpolator reports the point outside its buffer (\<open>break\<close>, result
  \<open>None\<close>: the sample is not valid).
\<close>

fun sample_ssd ::
  "'g MINDMetric \<Rightarrow> Point \<Rightarrow> SamplePoint \<Rightarrow> nat list \<Rightarrow> real \<Rightarrow> real option" where
  "sample_ssd s transformedPoint sample [] sampleSSD = Some sampleSSD"
| "sample_ssd s transformedPoint sample (ch # chs) sampleSSD =
     (if IsInsideBuffer (m_MovingMINDInterpolators s ! ch) transformedPoint
      then (let movingMINDValue = Evaluate (m_MovingMINDInterpolators s ! ch) transformedPoint;
                diff = fixedMINDValues sample ! ch - movingMINDValue
            in sample_ssd s transformedPoint sample chs (sampleSSD + diff * diff))
      else None)"

text \<open>The loop over the samples, with its two accumulators \<open>totalSSD\<close> and \<open>validCount\<close>.\<close>

fun accumulate_ssd ::
  "'g MINDMetric \<Rightarrow> nat \<Rightarrow> SamplePoint list \<Rightarrow> real \<times> nat \<Rightarrow> real \<times> nat" where
  "accumulate_ssd s numChannels [] (totalSSD, validCount) = (totalSSD, validCount)"
| "accumulate_ssd s numChannels (sample # samples) (totalSSD, validCount) =
     (case sample_ssd s (TransformPoint s (fixedPoint sample)) sample [0..<numChannels] 0 of
        Some sampleSSD \<Rightarrow>
          accumulate_ssd s numChannels samples (totalSSD + sampleSSD, Suc validCount)
      | None \<Rightarrow> accumulate_ssd s numChannels samples (totalSSD, validCount))"

definition ComputeMINDSSD :: "'g MINDMetric \<Rightarrow> real \<times> 'g MINDMetric" where
  "ComputeMINDSSD s =
     (let numChannels = length (m_MovingMINDFeatures s)
      in case accumulate_ssd s numChannels (m_SamplePoints s) (0, 0) of
           (totalSSD, validCount) \<Rightarrow>
             (if validCount > 0
              then totalSSD / (real validCount * real numChannels)
              else 0,
              s\<lparr>m_NumberOfValidSamples := validCount\<rparr>))"

definition GetValue :: "'g MINDMetric \<Rightarrow> real \<times> 'g MINDMetric" where
  "GetValue s =
     (case ComputeMINDSSD s of (v, s1) \<Rightarrow> (v, s1\<lparr>m_CurrentValue_MIND := v\<rparr>))"

text \<open>\<open>GetResiduals\<close>: per valid sample one residual \<open>fixed - moving\<close> per channel.\<close>

definition all_channels_inside :: "'g MINDMetric \<Rightarrow> nat \<Rightarrow> Point \<Rightarrow> bool" where
  "all_channels_inside s numChannels transformedPoint =
     list_all (\<lambda>ch. IsInsideBuffer (m_MovingMINDInterpolators s ! ch) transformedPoint)
              [0..<numChannels]"

definition channel_residual :: "'g MINDMetric \<Rightarrow> Point \<Rightarrow> SamplePoint \<Rightarrow> nat \<Rightarrow> real" where
  "channel_residual s transformedPoint sample ch =
     fixedMINDValues sample ! ch - Evaluate (m_MovingMINDInterpolators s ! ch) transformedPoint"

fun collect_residuals ::
  "'g MINDMetric \<Rightarrow> nat \<Rightarrow> SamplePoint list \<Rightarrow> real list \<times> nat \<Rightarrow> real list \<times> nat" where
  "collect_residuals s numChannels [] (residuals, validCount) = (residuals, validCount)"
| "collect_residuals s numChannels (sample # samples) (residuals, validCount) =
     (let transformedPoint = TransformPoint s (fixedPoint sample)
      in if all_channels_inside s numChannels transformedPoint
         then collect_residuals s numChannels samples
                (residuals @ map (channel_residual s transformedPoint sample) [0..<numChannels],
                 Suc validCount)
         else collect_residuals s numChannels samples (residuals, validCount))"

definition GetResiduals :: "'g MINDMetric \<Rightarrow> real list \<times> 'g MINDMetric" where
  "GetResiduals s =
     (case collect_residuals s (length (m_MovingMINDFeatures s)) (m_SamplePoints s) ([], 0) of
        (residuals, validCount) \<Rightarrow> (residuals, s\<lparr>m_NumberOfValidSamples := validCount\<rparr>))"

text \<open>
  \<open>GetResidualsAndJacobian\<close>: a sample is valid when every channel and every gradient
  component of every channel is inside its buffer; per valid sample and channel one
  residual and one row \<open>J[row][p] = - \<nabla>MIND \<cdot> \<partial>T/\<partial>q\<^sub>p\<close>.
\<close>

definition all_valid :: "'g MINDMetric \<Rightarrow> nat \<Rightarrow> Point \<Rightarrow> bool" where
  "all_valid s numChannels transformedPoint =
     list_all (\<lambda>ch. IsInsideBuffer (m_MovingMINDInterpolators s ! ch) transformedPoint
                   \<and> list_all (\<lambda>d. IsInsideBuffer
                                      (m_MovingMINDFeatureGradientInterpolators s ! ch ! d)
                                      transformedPoint) [0..<3])
              [0..<numChannels]"

definition jacobian_row :: "'g MINDMetric \<Rightarrow> Point \<Rightarrow> Point list \<Rightarrow> nat \<Rightarrow> real list" where
  "jacobian_row s transformedPoint transformJacobian ch =
     (let mindGradient =
            map (\<lambda>d. Evaluate (m_MovingMINDFeatureGradientInterpolators s ! ch ! d)
                        transformedPoint) [0..<3]
      in map (\<lambda>p. - (\<Sum>d\<leftarrow>[0..<3]. mindGradient ! d * component (transformJacobian ! p) d))
             [0..<m_NumberOfParameters_MIND s])"

fun collect_rows ::
  "'g MINDMetric \<Rightarrow> (Point \<Rightarrow> Point list) \<Rightarrow> nat \<Rightarrow> SamplePoint list
     \<Rightarrow> real list \<times> real list list \<times> nat \<Rightarrow> real list \<times> real list list \<times> nat" where
  "collect_rows s JacobianFunction numChannels [] acc = acc"
| "collect_rows s JacobianFunction numChannels (sample # samples)
       (residuals, jacobian, validCount) =
     (let transformedPoint = TransformPoint s (fixedPoint sample)
      in if \<not> all_valid s numChannels transformedPoint
         then collect_rows s JacobianFunction numChannels samples
                (residuals, jacobian, validCount)
         else
          (let transformJacobian = JacobianFunction (fixedPoint sample)
           in collect_rows s JacobianFunction numChannels samples
                (residuals @ map (channel_residual s transformedPoint sample) [0..<numChannels],
                 jacobian @ map (jacobian_row s transformedPoint transformJacobian)
                                [0..<numChannels],
                 Suc validCount)))"

definition GetResidualsAndJacobian ::
  "'g MINDMetric \<Rightarrow> error + (real list \<times> real list list) \<times> 'g MINDMetric" where
  "GetResidualsAndJacobian s =
     (case m_JacobianFunction_MIND s of
        None \<Rightarrow> Inl (runtime_error
                  ''[MIND] Jacobian function must be set for Gauss-Newton optimization'')
      | Some JacobianFunction \<Rightarrow>
          (case collect_rows s JacobianFunction (length (m_MovingMINDFeatures s))
                  (m_SamplePoints s) ([], [], 0) of
             (residuals, jacobian, validCount) \<Rightarrow>
               Inr ((residuals, jacobian), s\<lparr>m_NumberOfValidSamples := validCount\<rparr>)))"

section \<open>The specification's wording of the sampling lattice and of the descriptor\<close>










section \<open>Concrete inputs for the optimizer\<close>

text \<open>\<open>std::numeric_limits<double>::max()\<close>\<close>

definition DBL_MAX :: real where
  "DBL_MAX = (2 - 1 / 2 ^ 52) * 2 ^ 1023"

text \<open>The constructor's member initialisers; the vectors start empty.\<close>

definition GaussNewtonOptimizer_ctor :: GaussNewtonOptimizer where
  "GaussNewtonOptimizer_ctor =
     \<lparr>m_LearningRate = 1, m_MinimumStepLength = 1 / 10 ^ 6, m_NumberOfIterations = 100,
      m_RelaxationFactor = 1 / 2, m_GradientMagnitudeTolerance = 1 / 10 ^ 8,
      m_ReturnBestParameters = True, m_NumberOfParameters = 6, m_Scales = [],
      m_MaxParameterUpdate = [], m_DampingFactor = 1 / 10 ^ 3,
      m_UseLevenbergMarquardt = True, m_UseLineSearch = True,
      m_LineSearchMaxIterations = 10, m_LineSearchShrinkFactor = 1 / 2,
      m_CurrentValue = 0, m_BestValue = DBL_MAX, m_CurrentIteration = 0,
      m_CurrentStepLength = 1, m_PreviousValue = DBL_MAX, m_PreviousParameters = [],
      m_BestParameters = [], m_StopCondition = MAXIMUM_ITERATIONS\<rparr>"

text \<open>\<open>std::vector::resize(n, v)\<close>\<close>

definition resize :: "nat \<Rightarrow> 'a \<Rightarrow> 'a list \<Rightarrow> 'a list" where
  "resize n v xs = take n xs @ replicate (n - length xs) v"

definition SetNumberOfParameters :: "nat \<Rightarrow> GaussNewtonOptimizer \<Rightarrow> GaussNewtonOptimizer" where
  "SetNumberOfParameters num s =
     s\<lparr>m_NumberOfParameters := num, m_Scales := resize num 1 (m_Scales s),
       m_MaxParameterUpdate := resize num DBL_MAX (m_MaxParameterUpdate s)\<rparr>"

definition SetLearningRate :: "real \<Rightarrow> GaussNewtonOptimizer \<Rightarrow> GaussNewtonOptimizer" where
  "SetLearningRate rate s = s\<lparr>m_LearningRate := rate, m_CurrentStepLength := rate\<rparr>"

text \<open>
  The initialisation block of \<open>StartOptimization\<close> (the statements between the checks of
  the callbacks and the iteration loop): the state in which the first \<open>AdvanceOneStep\<close>
  runs.
\<close>

definition StartOptimization_init ::
  "'w callbacks \<Rightarrow> GaussNewtonOptimizer \<Rightarrow> 'w \<Rightarrow> GaussNewtonOptimizer \<times> 'w" where
  "StartOptimization_init cb s0 w0 =
     (let s1 = s0\<lparr>m_StopCondition := MAXIMUM_ITERATIONS, m_CurrentIteration := 0,
                  m_CurrentStepLength := m_LearningRate s0, m_BestValue := DBL_MAX,
                  m_PreviousParameters := m_GetParameters cb w0\<rparr>;
          (v, w1) = m_CostFunction cb w0;
          s2 = s1\<lparr>m_CurrentValue := v, m_PreviousValue := v\<rparr>
      in if m_CurrentValue s2 < m_BestValue s2
         then (s2\<lparr>m_BestValue := m_CurrentValue s2,
                   m_BestParameters := m_PreviousParameters s2\<rparr>, w1)
         else (s2, w1))"

text \<open>
  A least-squares problem in one parameter: residual \<open>f(q) = q\<close>, Jacobian \<open>1\<close>, cost
  \<open>q\<^sup>2\<close> with gradient \<open>2 q\<close>. The caller's state is the parameter vector itself.
\<close>

definition quadratic :: "real list callbacks" where
  "quadratic =
     \<lparr>m_CostFunction = (\<lambda>q. (q ! 0 * q ! 0, q)),
      m_GradientFunction = Some (\<lambda>g q. ([2 * q ! 0], q)),
      m_GetParameters = (\<lambda>q. q),
      m_SetParameters = (\<lambda>p q. p),
      m_ResidualFunction = (\<lambda>q. ([q ! 0], q)),
      m_JacobianFunction = (\<lambda>q. ([[1]], q))\<rparr>"

text \<open>The factorization of a one-by-one matrix \<open>(a)\<close>: always successful, \<open>u = b / a\<close>.\<close>

definition ldlt_1x1 :: ldlt_factorization where
  "ldlt_1x1 A = \<lparr>info_Success = True, isPositive = (0 \<le> A ! 0 ! 0),
                 solve = (\<lambda>b. Some [b ! 0 / A ! 0 ! 0])\<rparr>"

text \<open>A factorization whose \<open>info()\<close> is \<open>NumericalIssue\<close> while \<open>isPositive()\<close> holds.\<close>

definition ldlt_numerical_issue :: ldlt_factorization where
  "ldlt_numerical_issue A = \<lparr>info_Success = False, isPositive = True,
                             solve = (\<lambda>b. Some b)\<rparr>"

text \<open>The default optimizer with one parameter, started on \<open>quadratic\<close> at \<open>q = 1\<close>.\<close>

definition gn_default :: GaussNewtonOptimizer where
  "gn_default = fst (StartOptimization_init quadratic
                      (SetNumberOfParameters 1 GaussNewtonOptimizer_ctor) [1])"

definition gn_small_step :: GaussNewtonOptimizer where
  "gn_small_step = fst (StartOptimization_init quadratic
                      (SetLearningRate (1 / 10 ^ 6)
                        (SetNumberOfParameters 1 GaussNewtonOptimizer_ctor)) [1])"


section \<open>Concrete inputs for the metric\<close>

text \<open>
  A volume of a single voxel with unit spacing and identity direction, and a library
  instance that answers on it as ITK does: a shift by a non-zero offset moves the voxel
  out of view (default pixel \<open>0\<close>), the mean over a patch is the voxel itself, the gradient
  is zero, and the interpolator is inside the buffer at the points of the volume.
\<close>

definition single_voxel :: "real \<Rightarrow> Image" where
  "single_voxel v =
     \<lparr>GetSize = (1, 1, 1), GetSpacing = (1, 1, 1),
      TransformIndexToPhysicalPoint = (\<lambda>(x, y, z). (real x, real y, real z)),
      GetBuffer = [v]\<rparr>"

definition small_itk :: itk where
  "small_itk =
     \<lparr>ResampleImageFilter =
        (\<lambda>translation img.
           if translation = (0, 0, 0) then img
           else img\<lparr>GetBuffer := map (\<lambda>v. 0) (GetBuffer img)\<rparr>),
      MeanImageFilter = (\<lambda>radius img. img),
      GradientImageFilter = (\<lambda>img. map (\<lambda>v. (0, 0, 0)) (GetBuffer img)),
      LinearInterpolateImageFunction =
        (\<lambda>img. \<lparr>IsInsideBuffer =
                    (\<lambda>(px, py, pz). case GetSize img of (sx, sy, sz) \<Rightarrow>
                       0 \<le> px \<and> px \<le> real sx - 1 \<and> 0 \<le> py \<and> py \<le> real sy - 1
                       \<and> 0 \<le> pz \<and> pz \<le> real sz - 1),
                  Evaluate = (\<lambda>(px, py, pz). GetPixel img (nat \<lfloor>px\<rfloor>, nat \<lfloor>py\<rfloor>, nat \<lfloor>pz\<rfloor>))\<rparr>)\<rparr>"

text \<open>A generator whose state is a number: a linear congruential stand-in.\<close>

definition example_rng :: "nat random_library" where
  "example_rng =
     \<lparr>mt19937_default = 5489,
      mt19937_seed = (\<lambda>v. v),
      uniform_int_distribution =
        (\<lambda>a b g. (a + g mod (b - a + 1), (g * 1103515245 + 12345) mod 2 ^ 31))\<rparr>"

text \<open>The caller's memory: a fixed volume at address \<open>0\<close>, a moving volume elsewhere.\<close>

definition example_memory :: "nat \<Rightarrow> Image" where
  "example_memory address = (if address = 0 then single_voxel 0 else single_voxel 3)"

text \<open>
  A metric set up through its public interface: patch radius \<open>0\<close>, every voxel sampled,
  both volumes and an identity transform bound.
\<close>

definition metric_ready :: "nat MINDMetric" where
  "metric_ready =
     SetTransform (Some (\<lambda>p. p))
       (SetMovingImage (Some 1)
         (SetFixedImage (Some 0)
           (SetSamplingPercentage 1
             (SetMINDRadius 0 (MINDMetric_ctor example_rng)))))"

definition metric_initialized :: "nat MINDMetric" where
  "metric_initialized = projr (Initialize small_itk example_rng example_memory 0 metric_ready)"

definition metric_reinitialized :: "nat MINDMetric" where
  "metric_reinitialized =
     projr (Initialize small_itk example_rng example_memory 0
              (SetNeighborhoodType TwentySixConnected metric_initialized))"





section \<open>Theorems about the optimizer\<close>

subsection \<open>Helper lemmas\<close>

lemma magnitude_single:
  "ComputeScaledUpdateMagnitude s [x] = \<bar>x / scale_at (m_Scales s) 0\<bar>"
proof -
  have "sqrt ((x / scale_at (m_Scales s) 0) * (x / scale_at (m_Scales s) 0))
          = \<bar>x / scale_at (m_Scales s) 0\<bar>"
    by (rule real_sqrt_abs2)
  then show ?thesis
    by (simp add: ComputeScaledUpdateMagnitude_def del: times_divide_times_eq)
qed

lemmas gn_eval =
  AdvanceOneStep_def SetNumberOfParameters_def SetLearningRate_def StartOptimization_init_def
  GaussNewtonOptimizer_ctor_def resize_def scaled_jacobian_def JtJ_of_def Jtf_of_def
  scale_at_def SolveNormalEquations_def first_matrix_def retry_matrix_def add_to_diagonal_def
  ClampUpdate_def magnitude_single Let_def apply_update_def LineSearch_def stepped_def
  LineSearch_loop.simps check_convergence_def accept_step_def reject_step_def
  quadratic_def ldlt_1x1_def ldlt_numerical_issue_def DBL_MAX_def

text \<open>
  After a rejected step the current value equals the previous one, so the relative
  improvement is zero and the final test of \<open>AdvanceOneStep\<close> passes for every positive
  tolerance.
\<close>

lemma reject_then_converged:
  "0 < m_GradientMagnitudeTolerance s \<Longrightarrow>
     m_StopCondition (check_convergence (reject_step s)) = CONVERGED"
  by (simp add: check_convergence_def reject_step_def Let_def)










subsection \<open>C1: a rejected step ends in \<open>CONVERGED\<close>\<close>

text \<open>
  C1 says that \<open>AdvanceOneStep\<close> sets the stop condition \<open>CONVERGED\<close> only after an accepted
  step, never after a rejected one. The code does otherwise. The default optimizer
  (Levenberg-Marquardt and line search on, tolerance \<open>1e-8\<close>), started by
  \<open>StartOptimization\<close> on the cost \<open>q\<^sup>2\<close> at \<open>q = 1\<close>, makes a tentative step that does
  not lower the cost; the step is rejected (the parameter is back at \<open>1\<close>, the current
  value is unchanged, the step length is halved, the damping is doubled), and the stop
  condition the function leaves is \<open>CONVERGED\<close>.
\<close>

theorem rejected_step_reports_converged:
  "AdvanceOneStep ldlt_1x1 quadratic gn_default [1] =
     (gn_default\<lparr>m_CurrentStepLength := 1 / 2, m_DampingFactor := 2 / 10 ^ 3,
                 m_StopCondition := CONVERGED\<rparr>, [1])"
  by (simp add: gn_default_def gn_eval)

subsection \<open>C2: a rejected step whose step length falls below the minimum\<close>

text \<open>
  C2 says that a rejected step restores the parameters, multiplies the step factor by the
  relaxation factor, doubles the damping (ceiling \<open>1e6\<close>) and, when the step factor falls
  below \<open>minimum_step_length\<close>, stops with \<open>StepTooSmall\<close>. With the learning rate set to
  \<open>1e-6\<close> the same run as for C1 rejects its step, restores the parameter \<open>1\<close>, multiplies
  the step length to \<open>5e-7\<close>, which is below the minimum \<open>1e-6\<close>, doubles the damping, and
  leaves the stop condition \<open>CONVERGED\<close>, not \<open>STEP_TOO_SMALL\<close>.
\<close>

theorem too_small_step_reports_converged:
  "AdvanceOneStep ldlt_1x1 quadratic gn_small_step [1] =
     (gn_small_step\<lparr>m_CurrentStepLength := 1 / 10 ^ 6 * (1 / 2),
                    m_DampingFactor := 2 / 10 ^ 3,
                    m_StopCondition := CONVERGED\<rparr>, [1])
   \<and> m_CurrentStepLength gn_small_step * m_RelaxationFactor gn_small_step
       < m_MinimumStepLength gn_small_step"
  by (simp add: gn_small_step_def gn_eval)

subsection \<open>C3: the sign in the line search\<close>

text \<open>
  C3 says that the line search tests \<open>cost(q - \<alpha> update) \<le> cost(q) + c \<alpha> (g \<cdot> (- update))\<close>
  and returns \<open>0.1\<close> when \<open>g \<cdot> (- update) \<ge> 0\<close>. The code computes \<open>g \<cdot> update\<close> instead,
  while it moves along \<open>- update\<close>. For the cost \<open>q\<^sup>2\<close> at \<open>q = 1\<close> with the
  Gauss-Newton update \<open>- 1\<close> the gradient is \<open>2\<close> and \<open>g \<cdot> (- update) = 2 \<ge> 0\<close>; the code
  does not return \<open>0.1\<close> but backtracks ten times and returns \<open>1 / 1024\<close>.
\<close>

theorem LineSearch_slope_sign:
  "LineSearch quadratic gn_default [1] [- 1] 1 [1] = (1 / 1024, [1])
   \<and> map_option (\<lambda>g. fst (g [0] [1])) (m_GradientFunction quadratic) = Some [2]
   \<and> (\<Sum>i\<leftarrow>[0..<1]. [2] ! i * - ([- 1] ! i)) = (2::real)"
  by (simp add: gn_default_def gn_eval)

subsection \<open>C7: the normal equations and \<open>SINGULAR_MATRIX\<close>\<close>





section \<open>Theorems about the metric\<close>

subsection \<open>C6: the metric value without valid samples, and its sign\<close>








subsection \<open>C9: \<open>m_MINDSigma\<close> is read by no computation\<close>


lemma ComputePatchDistances_sigma:
  "ComputePatchDistances lib (s\<lparr>m_MINDSigma := sigma\<rparr>) img = ComputePatchDistances lib s img"
  by (simp add: ComputePatchDistances_def ApplyMeanFilter_def)

lemma ComputeMINDFeatures_sigma:
  "ComputeMINDFeatures lib (s\<lparr>m_MINDSigma := sigma\<rparr>) img = ComputeMINDFeatures lib s img"
  by (simp add: ComputeMINDFeatures_def ComputePatchDistances_sigma)

lemma sample_ssd_sigma:
  "sample_ssd (s\<lparr>m_MINDSigma := sigma\<rparr>) tp sample chs acc = sample_ssd s tp sample chs acc"
  by (induction chs arbitrary: acc) (simp_all add: Let_def)

lemma TransformPoint_sigma:
  "TransformPoint (s\<lparr>m_MINDSigma := sigma\<rparr>) = TransformPoint s"
  by (rule ext) (simp add: TransformPoint_def)

lemma accumulate_ssd_sigma:
  "accumulate_ssd (s\<lparr>m_MINDSigma := sigma\<rparr>) K samples acc = accumulate_ssd s K samples acc"
  by (induction samples arbitrary: acc)
     (auto simp: sample_ssd_sigma TransformPoint_sigma split: option.splits)

lemma GetValue_sigma:
  "GetValue (s\<lparr>m_MINDSigma := sigma\<rparr>) =
     (fst (GetValue s), (snd (GetValue s))\<lparr>m_MINDSigma := sigma\<rparr>)"
  by (simp add: GetValue_def ComputeMINDSSD_def Let_def accumulate_ssd_sigma split: prod.splits)

lemma collect_residuals_sigma:
  "collect_residuals (s\<lparr>m_MINDSigma := sigma\<rparr>) K samples acc = collect_residuals s K samples acc"
proof (induction samples arbitrary: acc)
  case Nil
  then show ?case by (cases acc) simp
next
  case (Cons a samples)
  have cr: "channel_residual (s\<lparr>m_MINDSigma := sigma\<rparr>) = channel_residual s"
    by (intro ext) (simp add: channel_residual_def)
  show ?case
    by (cases acc) (simp add: Cons Let_def TransformPoint_sigma all_channels_inside_def cr)
qed

lemma GetResiduals_sigma:
  "GetResiduals (s\<lparr>m_MINDSigma := sigma\<rparr>) =
     (fst (GetResiduals s), (snd (GetResiduals s))\<lparr>m_MINDSigma := sigma\<rparr>)"
  by (simp add: GetResiduals_def collect_residuals_sigma split: prod.splits)

lemma collect_rows_sigma:
  "collect_rows (s\<lparr>m_MINDSigma := sigma\<rparr>) JF K samples acc = collect_rows s JF K samples acc"
proof (induction samples arbitrary: acc)
  case Nil
  then show ?case by simp
next
  case (Cons a samples)
  have cr: "channel_residual (s\<lparr>m_MINDSigma := sigma\<rparr>) = channel_residual s"
    by (intro ext) (simp add: channel_residual_def)
  have jr: "jacobian_row (s\<lparr>m_MINDSigma := sigma\<rparr>) = jacobian_row s"
    by (intro ext) (simp add: jacobian_row_def)
  obtain r j c where acc: "acc = (r, j, c)" by (cases acc)
  show ?case
    by (simp add: acc Cons Let_def TransformPoint_sigma all_valid_def cr jr)
qed

lemma GetResidualsAndJacobian_sigma:
  "GetResidualsAndJacobian (s\<lparr>m_MINDSigma := sigma\<rparr>) =
     map_sum id (\<lambda>(r, s'). (r, s'\<lparr>m_MINDSigma := sigma\<rparr>)) (GetResidualsAndJacobian s)"
  by (simp add: GetResidualsAndJacobian_def collect_rows_sigma split: option.splits prod.splits)

text \<open>
  C9. For every state and every value passed to \<open>SetMINDSigma\<close>, the functions
  \<open>ComputePatchDistances\<close>, \<open>ComputeMINDFeatures\<close>, \<open>GetValue\<close>, \<open>GetResiduals\<close> and
  \<open>GetResidualsAndJacobian\<close> return what they return without the call, and the states
  they leave differ in \<open>m_MINDSigma\<close> only. Two states that differ only in the sigma
  therefore give identical results.
\<close>

theorem sigma_has_no_effect:
  "ComputePatchDistances lib (SetMINDSigma sigma s) img = ComputePatchDistances lib s img
   \<and> ComputeMINDFeatures lib (SetMINDSigma sigma s) img = ComputeMINDFeatures lib s img
   \<and> GetValue (SetMINDSigma sigma s) = (fst (GetValue s), SetMINDSigma sigma (snd (GetValue s)))
   \<and> GetResiduals (SetMINDSigma sigma s)
       = (fst (GetResiduals s), SetMINDSigma sigma (snd (GetResiduals s)))
   \<and> GetResidualsAndJacobian (SetMINDSigma sigma s)
       = map_sum id (\<lambda>(r, s'). (r, SetMINDSigma sigma s')) (GetResidualsAndJacobian s)"
  unfolding SetMINDSigma_def
  using ComputePatchDistances_sigma ComputeMINDFeatures_sigma GetValue_sigma GetResiduals_sigma
    GetResidualsAndJacobian_sigma
  by blast

subsection \<open>C10: the seed is applied after the sampling\<close>

lemma inside_mask_seed:
  "inside_mask (s\<lparr>m_RandomSeed := a, m_UseFixedSeed := b\<rparr>) = inside_mask s"
  by (rule ext) (simp add: inside_mask_def)

lemma make_sample_seed:
  "make_sample (s\<lparr>m_RandomSeed := a, m_UseFixedSeed := b\<rparr>) = make_sample s"
  by (intro ext) (simp add: make_sample_def)

lemma stratified_candidate_seed:
  "stratified_candidate (s\<lparr>m_RandomSeed := a, m_UseFixedSeed := b\<rparr>) = stratified_candidate s"
  by (intro ext) (simp add: stratified_candidate_def inside_mask_seed make_sample_seed)

lemma random_loop_seed:
  "random_loop rng (s\<lparr>m_RandomSeed := a, m_UseFixedSeed := b\<rparr>) img t m p k g acc
     = random_loop rng s img t m p k g acc"
proof (induction "m - k" arbitrary: k g acc)
  case 0
  then show ?case
    by (subst random_loop.simps, subst (2) random_loop.simps) simp
next
  case (Suc n)
  then have IH: "\<And>g' acc'.
      random_loop rng (s\<lparr>m_RandomSeed := a, m_UseFixedSeed := b\<rparr>) img t m p (Suc k) g' acc'
        = random_loop rng s img t m p (Suc k) g' acc'"
    by simp
  show ?case
    by (subst random_loop.simps, subst (2) random_loop.simps)
       (simp add: IH inside_mask_seed make_sample_seed split: prod.splits)
qed

lemma ComputeMINDFeatures_seed:
  "ComputeMINDFeatures lib (s\<lparr>m_RandomSeed := a, m_UseFixedSeed := b\<rparr>) img
     = ComputeMINDFeatures lib s img"
  by (simp add: ComputeMINDFeatures_def ComputePatchDistances_def ApplyMeanFilter_def)

lemma refresh_fixed_seed:
  "refresh_fixed lib memory addr (s\<lparr>m_RandomSeed := a, m_UseFixedSeed := b\<rparr>) =
     (refresh_fixed lib memory addr s)\<lparr>m_RandomSeed := a, m_UseFixedSeed := b\<rparr>"
  by (simp add: refresh_fixed_def fixed_features_recomputed_def ComputeMINDFeatures_seed)

lemma refresh_moving_seed:
  "refresh_moving lib memory addr (s\<lparr>m_RandomSeed := a, m_UseFixedSeed := b\<rparr>) =
     (refresh_moving lib memory addr s)\<lparr>m_RandomSeed := a, m_UseFixedSeed := b\<rparr>"
  by (simp add: refresh_moving_def moving_features_recomputed_def ComputeMINDFeatures_seed
                ComputeMINDFeatureGradients_def Let_def)

lemma sampling_parameters_seed:
  "targetSamples_of (s\<lparr>m_RandomSeed := a, m_UseFixedSeed := b\<rparr>) = targetSamples_of s"
  "step_of (s\<lparr>m_RandomSeed := a, m_UseFixedSeed := b\<rparr>) = step_of s"
  by (auto simp: targetSamples_of_def step_of_def intro!: ext)

lemma SampleFixedImage_seed:
  "SampleFixedImage rng memory (s\<lparr>m_RandomSeed := a, m_UseFixedSeed := b\<rparr>) =
     map_sum id (\<lambda>s'. s'\<lparr>m_RandomSeed := a, m_UseFixedSeed := b\<rparr>)
       (SampleFixedImage rng memory s)"
  by (simp add: SampleFixedImage_def SampleFixedImageStratified_def SampleFixedImageRandom_def
        sampling_parameters_seed stratified_candidate_seed random_loop_seed Let_def
        split: option.splits prod.splits)

lemma Initialize_seed:
  "Initialize lib rng memory entropy (s\<lparr>m_RandomSeed := a, m_UseFixedSeed := True\<rparr>) =
     map_sum id (\<lambda>s'. s'\<lparr>m_RandomSeed := a, m_UseFixedSeed := True,
                           m_RandomGenerator := mt19937_seed rng a\<rparr>)
       (Initialize lib rng memory entropy s)"
proof -
  have offsets: "InitializeNeighborhoodOffsets (s\<lparr>m_RandomSeed := a, m_UseFixedSeed := True\<rparr>)
      = (InitializeNeighborhoodOffsets s)\<lparr>m_RandomSeed := a, m_UseFixedSeed := True\<rparr>"
    by (simp add: InitializeNeighborhoodOffsets_def)
  have seed: "\<And>s'. seed_generator rng entropy (s'\<lparr>m_RandomSeed := a, m_UseFixedSeed := True\<rparr>) =
       (seed_generator rng entropy s')\<lparr>m_RandomSeed := a, m_UseFixedSeed := True,
                           m_RandomGenerator := mt19937_seed rng a\<rparr>"
    by (simp add: seed_generator_def)
  show ?thesis
    by (auto simp: Initialize_def Let_def offsets
          refresh_fixed_seed refresh_moving_seed SampleFixedImage_seed seed
          split: option.splits sum.splits)
qed

text \<open>
  C10. \<open>Initialize\<close> samples the fixed image before it seeds the generator. Whatever the
  state, the samples of an \<open>Initialize\<close> that follows \<open>SetRandomSeed\<close> are the same for any
  two seeds (and so is its success or failure), under either sampling strategy; the
  generator it leaves is the one seeded with the configured seed, which is what the next
  sampling draws from; and a metric fresh from its constructor draws from the
  default-constructed generator.
\<close>

theorem seed_does_not_reach_first_sampling:
  "map_sum id m_SamplePoints (Initialize lib rng memory entropy (SetRandomSeed seed1 s))
     = map_sum id m_SamplePoints (Initialize lib rng memory entropy (SetRandomSeed seed2 s))
   \<and> map_sum id m_RandomGenerator (Initialize lib rng memory entropy (SetRandomSeed seed1 s))
     = map_sum id (\<lambda>s'. mt19937_seed rng seed1)
         (Initialize lib rng memory entropy (SetRandomSeed seed1 s))
   \<and> m_RandomGenerator (SetRandomSeed seed1 (MINDMetric_ctor rng)) = mt19937_default rng"
  by (cases "Initialize lib rng memory entropy s")
     (simp_all add: Initialize_seed SetRandomSeed_def MINDMetric_ctor_def
                    InitializeNeighborhoodOffsets_def)

subsection \<open>C8: the caches of the MIND bundles\<close>

lemmas mind_eval =
  MINDMetric_ctor_def InitializeNeighborhoodOffsets_def SetTransform_def SetMovingImage_def
  SetFixedImage_def SetSamplingPercentage_def SetMINDRadius_def SetNeighborhoodType_def
  SetRandomSeed_def ResetCache_def
  Initialize_def refresh_fixed_def refresh_moving_def fixed_features_recomputed_def
  moving_features_recomputed_def seed_generator_def
  ComputeMINDFeatures_def ComputePatchDistances_def ApplyMeanFilter_def ShiftImage_def
  SubtractImageFilter_def SquareImageFilter_def AddImageFilter_def
  sum_images_def variance_buffer_def feature_buffer_def max_buffer_def normalized_buffer_def
  ComputeMINDFeatureGradients_def component_def
  SampleFixedImage_def SampleFixedImageStratified_def targetSamples_of_def step_of_def
  totalVoxels_of_def for_loop.simps stratified_candidate_def inside_mask_def make_sample_def
  GetPixel_def Let_def
  single_voxel_def small_itk_def example_rng_def example_memory_def


lemma length_ComputeMINDFeatures:
  "length (ComputeMINDFeatures lib s img) = length (m_NeighborhoodOffsets s)"
  by (simp add: ComputeMINDFeatures_def ComputePatchDistances_def Let_def)

lemma SampleFixedImage_frame:
  assumes "SampleFixedImage rng memory s = Inr s'"
  shows "\<exists>samples generator. s' = s\<lparr>m_SamplePoints := samples, m_RandomGenerator := generator\<rparr>"
proof (cases "m_UseStratifiedSampling s")
  case True
  with assms obtain samples where "s' = s\<lparr>m_SamplePoints := samples\<rparr>"
    by (auto simp: SampleFixedImage_def SampleFixedImageStratified_def Let_def
             split: option.splits prod.splits if_splits)
  then have "s' = s\<lparr>m_SamplePoints := samples, m_RandomGenerator := m_RandomGenerator s\<rparr>"
    by simp
  then show ?thesis by blast
next
  case False
  with assms show ?thesis
    by (auto simp: SampleFixedImage_def SampleFixedImageRandom_def Let_def
             split: option.splits prod.splits if_splits)
qed

lemma ComputeMINDFeatures_reads:
  "m_NeighborhoodOffsets s = m_NeighborhoodOffsets s' \<Longrightarrow> m_MINDRadius s = m_MINDRadius s' \<Longrightarrow>
     ComputeMINDFeatures lib s img = ComputeMINDFeatures lib s' img"
  by (simp add: ComputeMINDFeatures_def ComputePatchDistances_def ApplyMeanFilter_def)

lemma Initialize_unfold:
  assumes "Initialize lib rng memory entropy s = Inr s'"
  obtains fixedAddress movingAddress samples generator where
    "m_FixedImage s = Some fixedAddress" "m_MovingImage s = Some movingAddress"
    "s' = (refresh_moving lib memory movingAddress
            (refresh_fixed lib memory fixedAddress (InitializeNeighborhoodOffsets s)))
          \<lparr>m_SamplePoints := samples, m_RandomGenerator := generator\<rparr>"
proof -
  from assms obtain fa ma where addr: "m_FixedImage s = Some fa" "m_MovingImage s = Some ma"
    by (auto simp: Initialize_def split: option.splits)
  let ?s3 = "refresh_moving lib memory ma
               (refresh_fixed lib memory fa (InitializeNeighborhoodOffsets s))"
  from assms addr obtain s4 where s4: "SampleFixedImage rng memory ?s3 = Inr s4"
    and s': "s' = seed_generator rng entropy s4"
    by (auto simp: Initialize_def Let_def split: if_splits sum.splits)
  from SampleFixedImage_frame[OF s4] obtain samples generator where
    "s4 = ?s3\<lparr>m_SamplePoints := samples, m_RandomGenerator := generator\<rparr>" by blast
  then have "\<exists>g. s' = ?s3\<lparr>m_SamplePoints := samples, m_RandomGenerator := g\<rparr>"
    by (auto simp: s' seed_generator_def)
  then show ?thesis using that addr by blast
qed


lemma InitializeNeighborhoodOffsets_frame:
  "m_FixedImage (InitializeNeighborhoodOffsets s) = m_FixedImage s"
  "m_MovingImage (InitializeNeighborhoodOffsets s) = m_MovingImage s"
  "m_CachedFixedImage (InitializeNeighborhoodOffsets s) = m_CachedFixedImage s"
  "m_CachedMovingImage (InitializeNeighborhoodOffsets s) = m_CachedMovingImage s"
  "m_FixedMINDFeaturesValid (InitializeNeighborhoodOffsets s) = m_FixedMINDFeaturesValid s"
  "m_MovingMINDFeaturesValid (InitializeNeighborhoodOffsets s) = m_MovingMINDFeaturesValid s"
  "m_FixedMINDFeatures (InitializeNeighborhoodOffsets s) = m_FixedMINDFeatures s"
  "m_MovingMINDFeatures (InitializeNeighborhoodOffsets s) = m_MovingMINDFeatures s"
  "m_MovingMINDFeatureGradients (InitializeNeighborhoodOffsets s) = m_MovingMINDFeatureGradients s"
  "m_MovingMINDFeatureGradientInterpolators (InitializeNeighborhoodOffsets s)
     = m_MovingMINDFeatureGradientInterpolators s"
  "m_MovingMINDInterpolators (InitializeNeighborhoodOffsets s) = m_MovingMINDInterpolators s"
  "m_NeighborhoodType (InitializeNeighborhoodOffsets s) = m_NeighborhoodType s"
  "m_MINDRadius (InitializeNeighborhoodOffsets s) = m_MINDRadius s"
  by (simp_all add: InitializeNeighborhoodOffsets_def)

lemma refresh_fixed_fields:
  "m_FixedMINDFeatures (refresh_fixed lib memory a s) =
     (if m_CachedFixedImage s = m_FixedImage s \<and> m_FixedMINDFeaturesValid s
      then m_FixedMINDFeatures s else ComputeMINDFeatures lib s (memory a))"
  "m_CachedFixedImage (refresh_fixed lib memory a s) = m_FixedImage s"
  "m_FixedMINDFeaturesValid (refresh_fixed lib memory a s)"
  "m_FixedImage (refresh_fixed lib memory a s) = m_FixedImage s"
  "m_MovingImage (refresh_fixed lib memory a s) = m_MovingImage s"
  "m_CachedMovingImage (refresh_fixed lib memory a s) = m_CachedMovingImage s"
  "m_MovingMINDFeaturesValid (refresh_fixed lib memory a s) = m_MovingMINDFeaturesValid s"
  "m_MovingMINDFeatures (refresh_fixed lib memory a s) = m_MovingMINDFeatures s"
  "m_MovingMINDFeatureGradients (refresh_fixed lib memory a s) = m_MovingMINDFeatureGradients s"
  "m_MovingMINDFeatureGradientInterpolators (refresh_fixed lib memory a s)
     = m_MovingMINDFeatureGradientInterpolators s"
  "m_MovingMINDInterpolators (refresh_fixed lib memory a s) = m_MovingMINDInterpolators s"
  "m_NeighborhoodType (refresh_fixed lib memory a s) = m_NeighborhoodType s"
  "m_MINDRadius (refresh_fixed lib memory a s) = m_MINDRadius s"
  "m_NeighborhoodOffsets (refresh_fixed lib memory a s) = m_NeighborhoodOffsets s"
  by (auto simp: refresh_fixed_def fixed_features_recomputed_def)

lemma refresh_moving_fields:
  "m_MovingMINDFeatures (refresh_moving lib memory a s) =
     (if m_CachedMovingImage s = m_MovingImage s \<and> m_MovingMINDFeaturesValid s
      then m_MovingMINDFeatures s else ComputeMINDFeatures lib s (memory a))"
  "m_CachedMovingImage s = m_MovingImage s \<and> m_MovingMINDFeaturesValid s \<Longrightarrow>
     refresh_moving lib memory a s = s"
  "m_CachedMovingImage (refresh_moving lib memory a s) = m_MovingImage s"
  "m_MovingMINDFeaturesValid (refresh_moving lib memory a s)"
  "m_FixedImage (refresh_moving lib memory a s) = m_FixedImage s"
  "m_MovingImage (refresh_moving lib memory a s) = m_MovingImage s"
  "m_CachedFixedImage (refresh_moving lib memory a s) = m_CachedFixedImage s"
  "m_FixedMINDFeaturesValid (refresh_moving lib memory a s) = m_FixedMINDFeaturesValid s"
  "m_FixedMINDFeatures (refresh_moving lib memory a s) = m_FixedMINDFeatures s"
  "m_NeighborhoodType (refresh_moving lib memory a s) = m_NeighborhoodType s"
  "m_MINDRadius (refresh_moving lib memory a s) = m_MINDRadius s"
  by (auto simp: refresh_moving_def moving_features_recomputed_def
                 ComputeMINDFeatureGradients_def Let_def)

lemma Initialize_features:
  assumes "Initialize lib rng memory entropy s = Inr s'"
  shows "m_FixedMINDFeatures s' =
           (if m_CachedFixedImage s = m_FixedImage s \<and> m_FixedMINDFeaturesValid s
            then m_FixedMINDFeatures s
            else ComputeMINDFeatures lib (InitializeNeighborhoodOffsets s)
                   (memory (the (m_FixedImage s))))"
    and "m_MovingMINDFeatures s' =
           (if m_CachedMovingImage s = m_MovingImage s \<and> m_MovingMINDFeaturesValid s
            then m_MovingMINDFeatures s
            else ComputeMINDFeatures lib (InitializeNeighborhoodOffsets s)
                   (memory (the (m_MovingImage s))))"
    and "m_CachedMovingImage s = m_MovingImage s \<and> m_MovingMINDFeaturesValid s \<Longrightarrow>
           m_MovingMINDFeatureGradients s' = m_MovingMINDFeatureGradients s
           \<and> m_MovingMINDFeatureGradientInterpolators s'
               = m_MovingMINDFeatureGradientInterpolators s
           \<and> m_MovingMINDInterpolators s' = m_MovingMINDInterpolators s"
    and "m_CachedFixedImage s' = m_FixedImage s' \<and> m_FixedMINDFeaturesValid s'
           \<and> m_CachedMovingImage s' = m_MovingImage s' \<and> m_MovingMINDFeaturesValid s'"
    and "m_FixedImage s' = m_FixedImage s \<and> m_MovingImage s' = m_MovingImage s
           \<and> m_NeighborhoodType s' = m_NeighborhoodType s \<and> m_MINDRadius s' = m_MINDRadius s"
proof -
  from assms obtain fa ma samples generator where
    addr: "m_FixedImage s = Some fa" "m_MovingImage s = Some ma"
    and s': "s' = (refresh_moving lib memory ma
            (refresh_fixed lib memory fa (InitializeNeighborhoodOffsets s)))
          \<lparr>m_SamplePoints := samples, m_RandomGenerator := generator\<rparr>"
    by (rule Initialize_unfold)
  have reads: "ComputeMINDFeatures lib
        (refresh_fixed lib memory fa (InitializeNeighborhoodOffsets s)) (memory ma)
      = ComputeMINDFeatures lib (InitializeNeighborhoodOffsets s) (memory ma)"
    by (rule ComputeMINDFeatures_reads) (simp_all add: refresh_fixed_fields)
  show "m_FixedMINDFeatures s' =
           (if m_CachedFixedImage s = m_FixedImage s \<and> m_FixedMINDFeaturesValid s
            then m_FixedMINDFeatures s
            else ComputeMINDFeatures lib (InitializeNeighborhoodOffsets s)
                   (memory (the (m_FixedImage s))))"
    by (simp add: s' refresh_moving_fields refresh_fixed_fields
                  InitializeNeighborhoodOffsets_frame addr)
  show "m_MovingMINDFeatures s' =
           (if m_CachedMovingImage s = m_MovingImage s \<and> m_MovingMINDFeaturesValid s
            then m_MovingMINDFeatures s
            else ComputeMINDFeatures lib (InitializeNeighborhoodOffsets s)
                   (memory (the (m_MovingImage s))))"
    by (simp add: s' refresh_moving_fields refresh_fixed_fields
                  InitializeNeighborhoodOffsets_frame addr reads)
  show "m_CachedMovingImage s = m_MovingImage s \<and> m_MovingMINDFeaturesValid s \<Longrightarrow>
           m_MovingMINDFeatureGradients s' = m_MovingMINDFeatureGradients s
           \<and> m_MovingMINDFeatureGradientInterpolators s'
               = m_MovingMINDFeatureGradientInterpolators s
           \<and> m_MovingMINDInterpolators s' = m_MovingMINDInterpolators s"
    by (simp add: s' refresh_moving_fields(2) refresh_fixed_fields
                  InitializeNeighborhoodOffsets_frame)
  show "m_CachedFixedImage s' = m_FixedImage s' \<and> m_FixedMINDFeaturesValid s'
           \<and> m_CachedMovingImage s' = m_MovingImage s' \<and> m_MovingMINDFeaturesValid s'"
    by (simp add: s' refresh_moving_fields refresh_fixed_fields
                  InitializeNeighborhoodOffsets_frame)
  show "m_FixedImage s' = m_FixedImage s \<and> m_MovingImage s' = m_MovingImage s
           \<and> m_NeighborhoodType s' = m_NeighborhoodType s \<and> m_MINDRadius s' = m_MINDRadius s"
    by (simp add: s' refresh_moving_fields refresh_fixed_fields
                  InitializeNeighborhoodOffsets_frame)
qed


lemma metric_initialized_eq:
  "Initialize small_itk example_rng example_memory 0 metric_ready = Inr metric_initialized"
proof -
  have "\<exists>X. Initialize small_itk example_rng example_memory 0 metric_ready = Inr X"
    by (simp add: metric_ready_def mind_eval)
  then show ?thesis by (auto simp: metric_initialized_def)
qed

lemma metric_reinitialized_eq:
  "Initialize small_itk example_rng example_memory 0
     (SetNeighborhoodType TwentySixConnected metric_initialized) = Inr metric_reinitialized"
proof -
  have "\<exists>X. Initialize small_itk example_rng example_memory 0
     (SetNeighborhoodType TwentySixConnected metric_initialized) = Inr X"
    by (simp add: metric_initialized_def metric_ready_def mind_eval)
  then show ?thesis by (auto simp: metric_reinitialized_def)
qed

lemma metric_initialized_fields:
  "m_NeighborhoodType metric_initialized = SixConnected"
  "m_MINDRadius metric_initialized = 0"
  "length (m_FixedMINDFeatures metric_initialized) = 6"
  "m_FixedImage metric_initialized = Some 0"
  by (simp_all add: metric_initialized_def metric_ready_def mind_eval)

text \<open>
  C8, as stated, lets \<open>Initialize\<close> reuse the cached bundles exactly when the volume
  references and the descriptor parameters are those of the previous computation. The
  descriptor parameters are not part of the test. After a first \<open>Initialize\<close> with the
  6-neighbourhood, \<open>SetNeighborhoodType\<close> to the 26-neighbourhood and a second
  \<open>Initialize\<close>, the fixed bundle is the one computed before, with 6 channels, where a
  computation with the current parameters gives 26.
\<close>

theorem stale_bundle_after_parameter_change:
  "Initialize small_itk example_rng example_memory 0 metric_ready = Inr metric_initialized
   \<and> Initialize small_itk example_rng example_memory 0
       (SetNeighborhoodType TwentySixConnected metric_initialized) = Inr metric_reinitialized
   \<and> m_NeighborhoodType metric_initialized = SixConnected
   \<and> m_NeighborhoodType metric_reinitialized = TwentySixConnected
   \<and> m_FixedMINDFeatures metric_reinitialized = m_FixedMINDFeatures metric_initialized
   \<and> length (m_FixedMINDFeatures metric_reinitialized) = 6
   \<and> length (ComputeMINDFeatures small_itk metric_reinitialized (example_memory 0)) = 26"
proof -
  note second = Initialize_features[OF metric_reinitialized_eq]
  have key: "m_CachedFixedImage metric_initialized = m_FixedImage metric_initialized
      \<and> m_FixedMINDFeaturesValid metric_initialized"
    using Initialize_features(4)[OF metric_initialized_eq] by simp
  have reused: "m_FixedMINDFeatures metric_reinitialized = m_FixedMINDFeatures metric_initialized"
    using second(1) key by (simp add: SetNeighborhoodType_def)
  have type: "m_NeighborhoodType metric_reinitialized = TwentySixConnected"
    using second(5) by (simp add: SetNeighborhoodType_def)
  have offsets: "m_NeighborhoodOffsets metric_reinitialized = offsets_26"
    by (simp add: metric_reinitialized_def metric_initialized_def metric_ready_def mind_eval)
  have "length offsets_26 = 26"
    by (simp add: offsets_26_def)
  then have fresh: "length (ComputeMINDFeatures small_itk metric_reinitialized (example_memory 0)) = 26"
    by (simp add: length_ComputeMINDFeatures offsets)
  show ?thesis
    using metric_initialized_eq metric_reinitialized_eq metric_initialized_fields(1,3)
      type reused fresh by simp
qed

text \<open>
  C8, amended. \<open>Initialize\<close> reuses the fixed bundle exactly when the address of the fixed
  volume equals the cached address and the flag \<open>m_FixedMINDFeaturesValid\<close> is set, and
  computes it from the current volume and parameters otherwise; likewise for the moving
  bundle, whose gradients and interpolators are kept with it. After a successful
  \<open>Initialize\<close> a further one reuses both bundles whatever \<open>SetMINDRadius\<close> and
  \<open>SetNeighborhoodType\<close> were given in between and whatever the memory holds; after
  \<open>ResetCache\<close> it recomputes both; after \<open>SetFixedImage\<close>, even with the same reference,
  it recomputes the fixed bundle.
\<close>

theorem cache_keyed_by_reference:
  assumes "Initialize lib rng memory entropy s = Inr s1"
  shows "m_FixedMINDFeatures s1 =
           (if m_CachedFixedImage s = m_FixedImage s \<and> m_FixedMINDFeaturesValid s
            then m_FixedMINDFeatures s
            else ComputeMINDFeatures lib (InitializeNeighborhoodOffsets s)
                   (memory (the (m_FixedImage s))))
       \<and> m_MovingMINDFeatures s1 =
           (if m_CachedMovingImage s = m_MovingImage s \<and> m_MovingMINDFeaturesValid s
            then m_MovingMINDFeatures s
            else ComputeMINDFeatures lib (InitializeNeighborhoodOffsets s)
                   (memory (the (m_MovingImage s))))
       \<and> (m_CachedMovingImage s = m_MovingImage s \<and> m_MovingMINDFeaturesValid s \<longrightarrow>
            m_MovingMINDFeatureGradients s1 = m_MovingMINDFeatureGradients s
            \<and> m_MovingMINDFeatureGradientInterpolators s1
                = m_MovingMINDFeatureGradientInterpolators s
            \<and> m_MovingMINDInterpolators s1 = m_MovingMINDInterpolators s)
       \<and> (\<forall>radius type memory2 entropy2 s2.
            Initialize lib rng memory2 entropy2
              (SetNeighborhoodType type (SetMINDRadius radius s1)) = Inr s2 \<longrightarrow>
            m_FixedMINDFeatures s2 = m_FixedMINDFeatures s1
            \<and> m_MovingMINDFeatures s2 = m_MovingMINDFeatures s1
            \<and> m_MovingMINDFeatureGradients s2 = m_MovingMINDFeatureGradients s1)
       \<and> (\<forall>memory2 entropy2 s2.
            Initialize lib rng memory2 entropy2 (ResetCache s1) = Inr s2 \<longrightarrow>
            m_FixedMINDFeatures s2 =
              ComputeMINDFeatures lib (InitializeNeighborhoodOffsets s1)
                (memory2 (the (m_FixedImage s1)))
            \<and> m_MovingMINDFeatures s2 =
              ComputeMINDFeatures lib (InitializeNeighborhoodOffsets s1)
                (memory2 (the (m_MovingImage s1))))
       \<and> (\<forall>memory2 entropy2 s2.
            Initialize lib rng memory2 entropy2 (SetFixedImage (m_FixedImage s1) s1) = Inr s2 \<longrightarrow>
            m_FixedMINDFeatures s2 =
              ComputeMINDFeatures lib (InitializeNeighborhoodOffsets s1)
                (memory2 (the (m_FixedImage s1))))"
proof (intro conjI allI impI)
  note first = Initialize_features[OF assms]
  show "m_FixedMINDFeatures s1 =
           (if m_CachedFixedImage s = m_FixedImage s \<and> m_FixedMINDFeaturesValid s
            then m_FixedMINDFeatures s
            else ComputeMINDFeatures lib (InitializeNeighborhoodOffsets s)
                   (memory (the (m_FixedImage s))))"
    by (rule first(1))
  show "m_MovingMINDFeatures s1 =
           (if m_CachedMovingImage s = m_MovingImage s \<and> m_MovingMINDFeaturesValid s
            then m_MovingMINDFeatures s
            else ComputeMINDFeatures lib (InitializeNeighborhoodOffsets s)
                   (memory (the (m_MovingImage s))))"
    by (rule first(2))
  {
    assume key: "m_CachedMovingImage s = m_MovingImage s \<and> m_MovingMINDFeaturesValid s"
    from first(3)[OF key]
    show "m_MovingMINDFeatureGradients s1 = m_MovingMINDFeatureGradients s"
      and "m_MovingMINDFeatureGradientInterpolators s1
                = m_MovingMINDFeatureGradientInterpolators s"
      and "m_MovingMINDInterpolators s1 = m_MovingMINDInterpolators s"
      by simp_all
  }
  {
    fix radius type memory2 entropy2 s2
    let ?s = "SetNeighborhoodType type (SetMINDRadius radius s1)"
    assume second: "Initialize lib rng memory2 entropy2 ?s = Inr s2"
    have key: "m_CachedFixedImage ?s = m_FixedImage ?s \<and> m_FixedMINDFeaturesValid ?s"
      "m_CachedMovingImage ?s = m_MovingImage ?s \<and> m_MovingMINDFeaturesValid ?s"
      using first(4) by (simp_all add: SetNeighborhoodType_def SetMINDRadius_def)
    have same: "m_FixedMINDFeatures ?s = m_FixedMINDFeatures s1"
      "m_MovingMINDFeatures ?s = m_MovingMINDFeatures s1"
      "m_MovingMINDFeatureGradients ?s = m_MovingMINDFeatureGradients s1"
      by (simp_all add: SetNeighborhoodType_def SetMINDRadius_def)
    note later = Initialize_features[OF second]
    show "m_FixedMINDFeatures s2 = m_FixedMINDFeatures s1"
      using later(1) key(1) same(1) by simp
    show "m_MovingMINDFeatures s2 = m_MovingMINDFeatures s1"
      using later(2) key(2) same(2) by simp
    show "m_MovingMINDFeatureGradients s2 = m_MovingMINDFeatureGradients s1"
      using later(3)[OF key(2)] same(3) by simp
  }
  {
    fix memory2 entropy2 s2
    assume second: "Initialize lib rng memory2 entropy2 (ResetCache s1) = Inr s2"
    have reads: "\<And>img. ComputeMINDFeatures lib (InitializeNeighborhoodOffsets (ResetCache s1)) img
        = ComputeMINDFeatures lib (InitializeNeighborhoodOffsets s1) img"
      by (rule ComputeMINDFeatures_reads)
         (simp_all add: InitializeNeighborhoodOffsets_def ResetCache_def)
    note later = Initialize_features[OF second]
    show "m_FixedMINDFeatures s2 =
              ComputeMINDFeatures lib (InitializeNeighborhoodOffsets s1)
                (memory2 (the (m_FixedImage s1)))"
      using later(1) by (simp add: reads) (simp add: ResetCache_def)
    show "m_MovingMINDFeatures s2 =
              ComputeMINDFeatures lib (InitializeNeighborhoodOffsets s1)
                (memory2 (the (m_MovingImage s1)))"
      using later(2) by (simp add: reads) (simp add: ResetCache_def)
  }
  {
    fix memory2 entropy2 s2
    let ?s = "SetFixedImage (m_FixedImage s1) s1"
    assume second: "Initialize lib rng memory2 entropy2 ?s = Inr s2"
    have reads: "\<And>img. ComputeMINDFeatures lib (InitializeNeighborhoodOffsets ?s) img
        = ComputeMINDFeatures lib (InitializeNeighborhoodOffsets s1) img"
      by (rule ComputeMINDFeatures_reads)
         (simp_all add: InitializeNeighborhoodOffsets_def SetFixedImage_def)
    note later = Initialize_features[OF second]
    show "m_FixedMINDFeatures s2 =
              ComputeMINDFeatures lib (InitializeNeighborhoodOffsets s1)
                (memory2 (the (m_FixedImage s1)))"
      using later(1) by (simp add: reads) (simp add: SetFixedImage_def)
  }
qed

theorem cache_keyed_by_reference_witness:
  "Initialize small_itk example_rng example_memory 0 metric_ready = Inr metric_initialized
   \<and> Initialize small_itk example_rng example_memory 0
       (SetNeighborhoodType TwentySixConnected (SetMINDRadius 0 metric_initialized))
       = Inr metric_reinitialized
   \<and> m_FixedMINDFeatures metric_reinitialized = m_FixedMINDFeatures metric_initialized
   \<and> m_MovingMINDFeatures metric_reinitialized = m_MovingMINDFeatures metric_initialized"
proof -
  have radius: "SetMINDRadius 0 metric_initialized = metric_initialized"
    using metric_initialized_fields(2) by (simp add: SetMINDRadius_def)
  have second: "Initialize small_itk example_rng example_memory 0
       (SetNeighborhoodType TwentySixConnected (SetMINDRadius 0 metric_initialized))
       = Inr metric_reinitialized"
    by (simp add: radius metric_reinitialized_eq)
  from cache_keyed_by_reference[OF metric_initialized_eq] second
  have "m_FixedMINDFeatures metric_reinitialized = m_FixedMINDFeatures metric_initialized
      \<and> m_MovingMINDFeatures metric_reinitialized = m_MovingMINDFeatures metric_initialized"
    by blast
  with metric_initialized_eq second show ?thesis by blast
qed


subsection \<open>C4: stratified sampling\<close>

























subsection \<open>C5: the descriptor and its normalisation\<close>














end
